theory Spec2Isabelle
  imports Complex_Main
begin

section \<open>Exceptions and run results\<close>

text \<open>
  Python exceptions are values: the class that an \<open>except\<close> clause matches on, and the
  message that \<open>str(e)\<close> yields. A function that may raise returns \<open>exn + 'a\<close>, with
  \<open>Inl\<close> for the raised exception.

  The floating-point numbers of the source (\<open>numpy.float32\<close>, \<open>numpy.float64\<close>, Python
  \<open>float\<close>) are modelled as reals: rounding, overflow and NaN are outside the model.
  Where numpy yields a non-finite value (division by zero) the model has a separate
  outcome, since no real number stands for it.
\<close>

datatype exn_class =
    FileNotFoundError | FileExistsError | NotADirectoryError | IsADirectoryError
  | PermissionError | RuntimeError | ValueError | NotImplementedError
  | KeyError | CudaLogicError | CudaError

datatype exn = Exn (exn_kind: exn_class) (exn_str: string)

record timing =
  mean_ms :: real
  std_ms :: real
  min_ms :: real
  max_ms :: real

record correctness =
  max_error :: real
  passed :: bool

record sample =
  s_idx :: nat
  s_a :: real
  s_b :: real
  s_out :: real
  s_expected :: real
  s_error :: real

record comparison =
  speedup :: real
  speedup_percent :: real
  original_ms :: real
  modified_ms :: real
  both_correct :: bool

text \<open>
  The value of \<open>_compare_results\<close>: the dictionary \<open>{"error": msg}\<close>, the dictionary of the
  five comparison fields, or the five-field dictionary whose speedup is not finite
  (\<open>numpy.float64\<close> division by zero gives \<open>inf\<close> or \<open>nan\<close> and does not raise).
\<close>

datatype cmp_payload = CmpError string | CmpValues comparison | CmpNonFinite

text \<open>
  The \<open>results\<close> dictionary of \<open>KernelRunner.run\<close>. The keys \<open>timing\<close> and \<open>correctness\<close>
  hold the empty dictionary (\<open>None\<close> here) until the run has succeeded; \<open>samples\<close>,
  \<open>test_size\<close> and \<open>comparison\<close> are absent until they are set.
\<close>

record results =
  kernel :: string
  kernel_name :: string
  success :: bool
  error :: "string option"
  timing :: "timing option"
  correctness :: "correctness option"
  samples :: "sample list option"
  test_size :: "int option"
  comparison :: "cmp_payload option"

section \<open>Comparison engine: \<open>KernelRunner._compare_results\<close>\<close>

definition timing_mean :: "results \<Rightarrow> exn + real" where
  "timing_mean r =
     (case timing r of
        None \<Rightarrow> Inl (Exn KeyError ''mean_ms'')
      | Some t \<Rightarrow> Inr (mean_ms t))"

definition correctness_passed :: "results \<Rightarrow> exn + bool" where
  "correctness_passed r =
     (case correctness r of
        None \<Rightarrow> Inl (Exn KeyError ''passed'')
      | Some c \<Rightarrow> Inr (passed c))"

text \<open>
  \<open>new["correctness"]["passed"] and old["correctness"]["passed"]\<close>: Python's \<open>and\<close> does
  not evaluate its second operand when the first is false.
\<close>

definition both_passed :: "results \<Rightarrow> results \<Rightarrow> exn + bool" where
  "both_passed new_results old_results =
     (case correctness_passed new_results of
        Inl e \<Rightarrow> Inl e
      | Inr False \<Rightarrow> Inr False
      | Inr True \<Rightarrow> correctness_passed old_results)"

definition compare_results :: "results \<Rightarrow> results \<Rightarrow> exn + cmp_payload" where
  "compare_results new_results old_results =
     (if \<not> (success new_results \<and> success old_results)
      then Inr (CmpError ''One or both kernels failed'')
      else
        (case timing_mean old_results of
           Inl e \<Rightarrow> Inl e
         | Inr old_mean \<Rightarrow>
        (case timing_mean new_results of
           Inl e \<Rightarrow> Inl e
         | Inr new_mean \<Rightarrow>
        (case both_passed new_results old_results of
           Inl e \<Rightarrow> Inl e
         | Inr both \<Rightarrow>
             if new_mean = 0 then Inr CmpNonFinite
             else
               (let speedup = old_mean / new_mean
                in Inr (CmpValues
                     \<lparr>speedup = speedup,
                      speedup_percent = (speedup - 1) * 100,
                      original_ms = old_mean,
                      modified_ms = new_mean,
                      both_correct = both\<rparr>))))))"

text \<open>Two run results for the examples: a successful one with a given mean, and a failed one.\<close>

definition ok_result :: "real \<Rightarrow> bool \<Rightarrow> results" where
  "ok_result m p =
     \<lparr>kernel = ''k.cubin'', kernel_name = ''vector_add'', success = True, error = None,
      timing = Some \<lparr>mean_ms = m, std_ms = 0, min_ms = m, max_ms = m\<rparr>,
      correctness = Some \<lparr>max_error = 0, passed = p\<rparr>,
      samples = Some [], test_size = Some 1024, comparison = None\<rparr>"

definition failed_result :: "string \<Rightarrow> results" where
  "failed_result msg =
     \<lparr>kernel = ''k.cubin'', kernel_name = ''vector_add'', success = False, error = Some msg,
      timing = None, correctness = None,
      samples = None, test_size = None, comparison = None\<rparr>"

section \<open>Sequencing of operations that may raise\<close>

text \<open>
  An operation on a state \<open>'s\<close> (the file system, or the device and the runner's class
  attributes) yields its value or the exception it raises, and the state it leaves.
  \<open>bind\<close> is the semicolon: an exception skips what follows. \<open>try_finally\<close> is
  \<open>try: m finally: fin\<close>: \<open>fin\<close> runs whatever \<open>m\<close> did, and an exception of \<open>fin\<close>
  replaces the outcome of \<open>m\<close>.
\<close>

type_synonym ('a, 's) prog = "'s \<Rightarrow> (exn + 'a) \<times> 's"

definition ret :: "'a \<Rightarrow> ('a, 's) prog" where
  "ret x s = (Inr x, s)"

definition raise :: "exn \<Rightarrow> ('a, 's) prog" where
  "raise e s = (Inl e, s)"

definition bind :: "('a, 's) prog \<Rightarrow> ('a \<Rightarrow> ('b, 's) prog) \<Rightarrow> ('b, 's) prog" where
  "bind m f s = (case m s of (Inl e, s') \<Rightarrow> (Inl e, s') | (Inr x, s') \<Rightarrow> f x s')"

definition lift :: "exn + 'a \<Rightarrow> ('a, 's) prog" where
  "lift r s = (r, s)"

text \<open>
  \<open>try_except m handler cont\<close> is a \<open>try\<close> block that runs \<open>m\<close> and then, still inside the
  block, \<open>cont\<close> on the value of \<open>m\<close>; \<open>handler\<close> is the \<open>except Exception\<close> clause for an
  exception of \<open>m\<close>, and does not raise. An exception of \<open>cont\<close> is for the handler that
  \<open>cont\<close> itself installs.
\<close>

definition try_except ::
  "('a, 's) prog \<Rightarrow> (exn \<Rightarrow> 'b) \<Rightarrow> ('a \<Rightarrow> ('b, 's) prog) \<Rightarrow> ('b, 's) prog" where
  "try_except m handler cont s =
     (case m s of (Inl e, s') \<Rightarrow> (Inr (handler e), s') | (Inr x, s') \<Rightarrow> cont x s')"

definition try_finally :: "('a, 's) prog \<Rightarrow> (unit, 's) prog \<Rightarrow> ('a, 's) prog" where
  "try_finally m fin s =
     (case m s of
        (r, s') \<Rightarrow> (case fin s' of (Inl e, s'') \<Rightarrow> (Inl e, s'') | (Inr _, s'') \<Rightarrow> (r, s'')))"

section \<open>Paths and the file system\<close>

text \<open>
  \<open>pathlib.Path\<close> on a POSIX system: a path is its parts, with a flag for a leading
  separator. \<open>Path s\<close> splits at \<open>/\<close> and drops empty parts and \<open>.\<close> parts; \<open>name\<close> is the
  last part; \<open>suffix\<close> and \<open>stem\<close> cut the name at its last dot, unless that dot is the
  first or the last character of the name.
\<close>

fun split_on :: "char \<Rightarrow> string \<Rightarrow> string list" where
  "split_on c [] = [[]]"
| "split_on c (x # xs) =
     (if x = c then [] # split_on c xs
      else (case split_on c xs of
              [] \<Rightarrow> [[x]]
            | w # ws \<Rightarrow> (x # w) # ws))"

record path =
  anchored :: bool
  parts :: "string list"

definition Path :: "string \<Rightarrow> path" where
  "Path s =
     \<lparr>anchored = (case s of [] \<Rightarrow> False | x # _ \<Rightarrow> x = CHR ''/''),
      parts = filter (\<lambda>p. p \<noteq> [] \<and> p \<noteq> ''.'') (split_on (CHR ''/'') s)\<rparr>"

definition path_name :: "path \<Rightarrow> string" where
  "path_name p = (case rev (parts p) of [] \<Rightarrow> [] | x # _ \<Rightarrow> x)"

text \<open>\<open>str.rfind\<close>: the index of the last occurrence, \<open>None\<close> for Python's \<open>-1\<close>.\<close>

fun rfind :: "char \<Rightarrow> string \<Rightarrow> nat option" where
  "rfind c [] = None"
| "rfind c (x # xs) =
     (case rfind c xs of
        Some i \<Rightarrow> Some (Suc i)
      | None \<Rightarrow> if x = c then Some 0 else None)"

definition path_suffix :: "path \<Rightarrow> string" where
  "path_suffix p =
     (let name = path_name p in
      case rfind (CHR ''.'') name of
        None \<Rightarrow> []
      | Some i \<Rightarrow> if 0 < i \<and> Suc i < length name then drop i name else [])"

definition path_stem :: "path \<Rightarrow> string" where
  "path_stem p =
     (let name = path_name p in
      case rfind (CHR ''.'') name of
        None \<Rightarrow> name
      | Some i \<Rightarrow> if 0 < i \<and> Suc i < length name then take i name else name)"

text \<open>\<open>p / s\<close>: the parts of \<open>s\<close> after those of \<open>p\<close>, unless \<open>s\<close> is absolute.\<close>

definition path_join :: "path \<Rightarrow> string \<Rightarrow> path" where
  "path_join p s =
     (let q = Path s in
      if anchored q then q
      else \<lparr>anchored = anchored p, parts = parts p @ parts q\<rparr>)"

fun join_parts :: "string list \<Rightarrow> string" where
  "join_parts [] = []"
| "join_parts [x] = x"
| "join_parts (x # y # zs) = x @ ''/'' @ join_parts (y # zs)"

definition path_str :: "path \<Rightarrow> string" where
  "path_str p =
     (if anchored p then ''/'' @ join_parts (parts p)
      else if parts p = [] then ''.''
      else join_parts (parts p))"

text \<open>
  The file system: the contents of the regular files, the set of directories, and the set of
  directories in which nothing can be created (no write permission, or a read-only medium),
  all keyed by path. A path with no parts is the working directory or the root, which is a
  directory. Links and \<open>..\<close> are outside the model.
\<close>

record filesystem =
  files :: "path \<rightharpoonup> string"
  dirs :: "path set"
  readonly :: "path set"

definition is_dir :: "filesystem \<Rightarrow> path \<Rightarrow> bool" where
  "is_dir fs p \<longleftrightarrow> parts p = [] \<or> p \<in> dirs fs"

definition path_exists :: "filesystem \<Rightarrow> path \<Rightarrow> bool" where
  "path_exists fs p \<longleftrightarrow> p \<in> dom (files fs) \<or> is_dir fs p"

definition parent :: "path \<Rightarrow> path" where
  "parent p = p\<lparr>parts := butlast (parts p)\<rparr>"

definition ancestors :: "path \<Rightarrow> path list" where
  "ancestors p = map (\<lambda>k. p\<lparr>parts := take k (parts p)\<rparr>) [1..<Suc (length (parts p))]"

definition quoted :: "string \<Rightarrow> string" where
  "quoted s = [CHR 0x27] @ s @ [CHR 0x27]"

definition no_such_file :: "string \<Rightarrow> exn" where
  "no_such_file s = Exn FileNotFoundError (''[Errno 2] No such file or directory: '' @ quoted s)"

definition file_exists :: "path \<Rightarrow> exn" where
  "file_exists p = Exn FileExistsError (''[Errno 17] File exists: '' @ quoted (path_str p))"

definition not_a_directory :: "path \<Rightarrow> exn" where
  "not_a_directory p =
     Exn NotADirectoryError (''[Errno 20] Not a directory: '' @ quoted (path_str p))"

definition is_a_directory :: "path \<Rightarrow> exn" where
  "is_a_directory p =
     Exn IsADirectoryError (''[Errno 21] Is a directory: '' @ quoted (path_str p))"

definition permission_denied :: "path \<Rightarrow> exn" where
  "permission_denied p =
     Exn PermissionError (''[Errno 13] Permission denied: '' @ quoted (path_str p))"

text \<open>
  \<open>Path.mkdir(parents=True, exist_ok=True)\<close> on a path \<open>p\<close> that is not a directory yet: the
  prefixes of \<open>p\<close> are visited from the top. A prefix that is a directory is passed; one that
  is a regular file makes the call raise (\<open>FileExistsError\<close> when it is \<open>p\<close> itself,
  \<open>NotADirectoryError\<close> otherwise); a missing one is created, unless nothing can be created
  in the directory above it (\<open>PermissionError\<close>).
\<close>

fun make_dirs :: "path \<Rightarrow> path list \<Rightarrow> (unit, filesystem) prog" where
  "make_dirs p [] fs = (Inr (), fs)"
| "make_dirs p (q # qs) fs =
     (if is_dir fs q then make_dirs p qs fs
      else if q \<in> dom (files fs)
      then (Inl (if q = p then file_exists p else not_a_directory p), fs)
      else if parent q \<in> readonly fs then (Inl (permission_denied q), fs)
      else make_dirs p qs (fs\<lparr>dirs := insert q (dirs fs)\<rparr>))"

text \<open>
  \<open>utils.ensure_dir\<close>: \<open>path.mkdir(parents=True, exist_ok=True)\<close>, then the path. An existing
  directory is left as it is.
\<close>

definition ensure_dir :: "string \<Rightarrow> (path, filesystem) prog" where
  "ensure_dir s fs =
     (let p = Path s in
      if is_dir fs p then (Inr p, fs)
      else (case make_dirs p (ancestors p) fs of
              (Inl e, fs') \<Rightarrow> (Inl e, fs')
            | (Inr _, fs') \<Rightarrow> (Inr p, fs')))"

text \<open>
  \<open>Path.write_text\<close> needs the directory of the file; it does not write over a directory,
  and it creates a new file only where files can be created.
\<close>

definition write_text :: "path \<Rightarrow> string \<Rightarrow> (unit, filesystem) prog" where
  "write_text p txt fs =
     (if is_dir fs p then (Inl (is_a_directory p), fs)
      else if \<not> is_dir fs (parent p) then (Inl (no_such_file (path_str p)), fs)
      else if p \<notin> dom (files fs) \<and> parent p \<in> readonly fs
      then (Inl (permission_denied p), fs)
      else (Inr (), fs\<lparr>files := (files fs)(p \<mapsto> txt)\<rparr>))"

text \<open>
  \<open>shutil.copy2(src, dst)\<close> raises \<open>FileNotFoundError\<close> when the source is missing; when the
  destination is a directory, the copy goes into it under the name of the source.
\<close>

definition copy2 :: "path \<Rightarrow> path \<Rightarrow> (unit, filesystem) prog" where
  "copy2 src dst fs =
     (case files fs src of
        None \<Rightarrow>
          (Inl (if is_dir fs src then is_a_directory src else no_such_file (path_str src)), fs)
      | Some txt \<Rightarrow>
          write_text (if is_dir fs dst then path_join dst (path_name src) else dst) txt fs)"

section \<open>External tool invoker: \<open>utils.run_command\<close>\<close>

text \<open>
  What \<open>subprocess.run(cmd, capture_output=True, text=True, check=True)\<close> meets: the program
  runs to completion with an exit code and its two captured streams, possibly changing
  files, or the program is not found. The behaviour of the installed tools is a parameter.
\<close>

datatype completed = Completed (returncode: int) (stdout: string) (stderr: string)

type_synonym tools = "string list \<Rightarrow> filesystem \<Rightarrow> completed option \<times> filesystem"

fun str_nat :: "nat \<Rightarrow> string" where
  "str_nat n =
     (if n < 10 then [''0123456789'' ! n]
      else str_nat (n div 10) @ [''0123456789'' ! (n mod 10)])"

definition str_int :: "int \<Rightarrow> string" where
  "str_int i = (if i < 0 then ''-'' @ str_nat (nat (- i)) else str_nat (nat i))"

definition command_failed :: "int \<Rightarrow> string \<Rightarrow> exn" where
  "command_failed rc err =
     Exn RuntimeError (''Command failed with exit code '' @ str_int rc @ '':'' @ [CHR 0x0A] @ err)"

definition run_command :: "tools \<Rightarrow> string list \<Rightarrow> (string \<times> string, filesystem) prog" where
  "run_command sh cmd fs =
     (case sh cmd fs of
        (None, fs') \<Rightarrow> (Inl (no_such_file (case cmd of [] \<Rightarrow> [] | c # _ \<Rightarrow> c)), fs')
      | (Some result, fs') \<Rightarrow>
          if returncode result \<noteq> 0
          then (Inl (command_failed (returncode result) (stderr result)), fs')
          else (Inr (stdout result, stderr result), fs'))"

text \<open>\<open>utils.check_cuda_installation\<close> tells the two kinds of failure from success.\<close>

definition check_cuda_installation :: "tools \<Rightarrow> filesystem \<Rightarrow> exn + bool" where
  "check_cuda_installation sh fs =
     (case fst (run_command sh [''nvcc'', ''--version''] fs) of
        Inr _ \<Rightarrow> Inr True
      | Inl e \<Rightarrow>
          if exn_kind e = RuntimeError \<or> exn_kind e = FileNotFoundError then Inr False
          else Inl e)"

section \<open>The stages: \<open>Compiler\<close>, \<open>Disassembler\<close>, \<open>Assembler\<close>\<close>

text \<open>
  Each stage takes its input file and its output directory as the strings the command line
  passes.
  The two \<open>print\<close> calls of \<open>Compiler.compile\<close> write to the console only.
\<close>

definition compile_cuda :: "tools \<Rightarrow> path \<Rightarrow> path \<Rightarrow> (path \<times> path, filesystem) prog" where
  "compile_cuda sh cuda_file output_dir =
     (let stem = path_stem cuda_file;
          ptx_file = path_join output_dir (stem @ ''.ptx'');
          cubin_file = path_join output_dir (stem @ ''.cubin'')
      in bind (run_command sh
                 [''nvcc'', ''-ptx'', path_str cuda_file, ''-o'', path_str ptx_file,
                  ''-arch=sm_86'', ''-O3''])
           (\<lambda>_. bind (run_command sh
                        [''nvcc'', ''-cubin'', path_str cuda_file, ''-o'', path_str cubin_file,
                         ''-arch=sm_86'', ''-O3''])
           (\<lambda>_. ret (ptx_file, cubin_file))))"

definition compile_triton :: "path \<Rightarrow> path \<Rightarrow> (path \<times> path, filesystem) prog" where
  "compile_triton triton_file output_dir =
     raise (Exn NotImplementedError ''Triton compilation not yet implemented'')"

definition compile :: "tools \<Rightarrow> string \<Rightarrow> string \<Rightarrow> (path \<times> path, filesystem) prog" where
  "compile sh input_file output_dir =
     (let input_path = Path input_file
      in bind (ensure_dir output_dir)
           (\<lambda>out.
              if path_suffix input_path = ''.cu'' then compile_cuda sh input_path out
              else if path_suffix input_path = ''.py'' then compile_triton input_path out
              else raise (Exn ValueError
                            (''Unsupported file type: '' @ path_suffix input_path))))"

definition disassemble :: "tools \<Rightarrow> string \<Rightarrow> string \<Rightarrow> (path, filesystem) prog" where
  "disassemble sh cubin_file output_dir =
     (let cubin_path = Path cubin_file
      in bind (ensure_dir output_dir)
           (\<lambda>out.
              let sass_file = path_join out (path_stem cubin_path @ ''.sass'');
                  cuasm_file = path_join out (path_stem cubin_path @ ''.cuasm'')
              in bind (run_command sh [''nvdisasm'', ''-g'', ''-c'', path_str cubin_path])
                   (\<lambda>(sass_text, _).
                 bind (write_text sass_file sass_text)
                   (\<lambda>_.
                 bind (copy2 cubin_path
                         (path_join out (path_stem cubin_path @ ''.original.cubin'')))
                   (\<lambda>_.
                 bind (run_command sh
                         [''cuasm'', ''--bin2asm'', path_str cubin_path,
                          ''-o'', path_str cuasm_file])
                   (\<lambda>_. ret cuasm_file))))))"

definition assemble :: "tools \<Rightarrow> string \<Rightarrow> string \<Rightarrow> (path, filesystem) prog" where
  "assemble sh cuasm_file output_dir =
     (let cuasm_path = Path cuasm_file
      in bind (ensure_dir output_dir)
           (\<lambda>out.
              let cubin_file = path_join out (path_stem cuasm_path @ ''_new.cubin'')
              in bind (\<lambda>fs.
                         if \<not> path_exists fs cuasm_path
                         then (Inl (Exn FileNotFoundError
                                 (''Could not find '' @ path_str cuasm_path
                                    @ ''. Please run disassemble first.'')), fs)
                         else (Inr (), fs))
                   (\<lambda>_.
                 bind (run_command sh
                         [''cuasm'', ''--asm2bin'', path_str cuasm_path,
                          ''-o'', path_str cubin_file])
                   (\<lambda>_. ret cubin_file))))"

text \<open>
  An installation for the examples: \<open>nvdisasm\<close> and \<open>cuasm\<close> are present and exit with
  status 255 and a diagnostic when their input file cannot be opened; \<open>nvcc\<close> is absent.
\<close>

definition demo_tools :: tools where
  "demo_tools cmd fs =
     (case cmd of
        [] \<Rightarrow> (None, fs)
      | prog # args \<Rightarrow>
          if prog = ''nvdisasm'' \<or> prog = ''cuasm'' then
            (if list_ex (\<lambda>a. files fs (Path a) \<noteq> None) args
             then (Some (Completed 0 ''text'' []), fs)
             else (Some (Completed 255 [] ''fatal: could not open input file''), fs))
          else (None, fs))"

definition empty_fs :: filesystem where
  "empty_fs = \<lparr>files = Map.empty, dirs = {}, readonly = {}\<rparr>"

section \<open>The device, the clock and the runner's class attributes\<close>

text \<open>
  The CUDA driver, the clock, the random generator and the JSON parser are outside the
  repository: their behaviour is the parameter \<open>env\<close>. Every driver call of one invocation
  of \<open>run\<close> has a label, and \<open>fault env d l\<close> is the exception that the call labelled \<open>l\<close>
  raises in invocation \<open>d\<close> (0 for the caller's, 1 for the comparison run inside it), if it
  raises. \<open>Launch 0\<close> and \<open>Synchronize 0\<close> are the warmup, \<open>Launch (Suc i)\<close> and
  \<open>Synchronize (Suc i)\<close> the timed iteration \<open>i\<close>; a failure while the arguments of a
  kernel call are built counts as a failure of the launch. \<open>MemAlloc\<close>, \<open>MemcpyHtoD\<close> and
  \<open>Free\<close> carry the position of the buffer: 0 for \<open>a\<close>, 1 for \<open>b\<close>, 2 for \<open>c\<close>. \<open>OpenFile\<close>
  is the reading of the CUBIN file, which is labelled like a driver call.

  The other fields of \<open>env\<close>: \<open>context_driver d\<close> is what the driver raises when invocation
  \<open>d\<close> acquires its context, \<open>pop_raises ctx\<close> what \<open>ctx.pop()\<close> raises, \<open>json_loads\<close> is
  \<open>json.loads\<close>, \<open>perf_counter k\<close> the reading number \<open>k\<close> of \<open>time.perf_counter()\<close>,
  \<open>rand_a d i\<close> and \<open>rand_b d i\<close> the entry \<open>i\<close> of the two random arrays of invocation
  \<open>d\<close>, and \<open>device_out d a b i\<close> the entry \<open>i\<close> of the output buffer of invocation \<open>d\<close>
  when it is copied back, the inputs on the device being \<open>a\<close> and \<open>b\<close>.
\<close>

datatype label =
    OpenFile | ModuleFromBuffer | GetFunction
  | MemAlloc nat | MemcpyHtoD nat
  | Launch nat | Synchronize nat
  | MemcpyDtoH | Free nat

datatype event = Op nat label | PerfCounter nat

record env =
  context_driver :: "nat \<Rightarrow> exn option"
  pop_raises :: "nat \<Rightarrow> exn option"
  json_loads :: "string \<Rightarrow> exn + (string \<rightharpoonup> int)"
  fault :: "nat \<Rightarrow> label \<Rightarrow> exn option"
  perf_counter :: "nat \<Rightarrow> real"
  rand_a :: "nat \<Rightarrow> nat \<Rightarrow> real"
  rand_b :: "nat \<Rightarrow> nat \<Rightarrow> real"
  device_out :: "nat \<Rightarrow> real list \<Rightarrow> real list \<Rightarrow> nat \<Rightarrow> real"

text \<open>
  The state: the class attributes of \<open>KernelRunner\<close> (\<open>_thread_local.context\<close> as a map from
  the worker to its context, \<open>_contexts_to_cleanup\<close>, \<open>_cleanup_registered\<close>), and the device:
  the contexts made so far, the calls of \<open>ctx.pop()\<close> with whether they succeeded, the device
  buffers that are allocated and not freed, the driver calls that have completed and the
  readings of the clock, in order.
\<close>

record world =
  thread_local :: "nat \<rightharpoonup> nat"
  contexts_to_cleanup :: "nat list"
  cleanup_registered :: bool
  made :: nat
  pop_log :: "(nat \<times> bool) list"
  live :: "nat list"
  allocated :: nat
  trace :: "event list"
  ticks :: nat

definition initial_world :: world where
  "initial_world =
     \<lparr>thread_local = Map.empty, contexts_to_cleanup = [], cleanup_registered = False,
      made = 0, pop_log = [], live = [], allocated = 0, trace = [], ticks = 0\<rparr>"

section \<open>Execution context manager\<close>

text \<open>\<open>KernelRunner.__init__\<close> registers the cleanup handler once.\<close>

definition init_runner :: "world \<Rightarrow> world" where
  "init_runner w = (if \<not> cleanup_registered w then w\<lparr>cleanup_registered := True\<rparr> else w)"

text \<open>
  \<open>_ensure_cuda_context\<close> for the worker \<open>tid\<close>. \<open>drv\<close> is what the driver raises in this call:
  in \<open>cuda.init()\<close>, \<open>cuda.Device(0)\<close> or \<open>make_context()\<close> when the worker has no context
  yet, in \<open>context.push()\<close> when it has one. A new context is a new object.
\<close>

definition ensure_cuda_context :: "exn option \<Rightarrow> nat \<Rightarrow> (unit, world) prog" where
  "ensure_cuda_context drv tid w =
     (case thread_local w tid of
        None \<Rightarrow>
          (case drv of
             Some e \<Rightarrow> (Inl e, w)
           | None \<Rightarrow>
               (let ctx = made w
                in (Inr (),
                    w\<lparr>made := Suc ctx,
                      thread_local := (thread_local w)(tid \<mapsto> ctx),
                      contexts_to_cleanup := contexts_to_cleanup w @ [ctx]\<rparr>)))
      | Some ctx \<Rightarrow>
          (case drv of
             None \<Rightarrow> (Inr (), w)
           | Some e \<Rightarrow> if exn_kind e = CudaLogicError then (Inr (), w) else (Inl e, w)))"

text \<open>
  \<open>_cleanup_all_contexts\<close>: one \<open>ctx.pop()\<close> per entry of the list, inside
  \<open>try: ... except: pass\<close>, and then the list is cleared.
\<close>

fun pop_all :: "env \<Rightarrow> nat list \<Rightarrow> (nat \<times> bool) list \<Rightarrow> (nat \<times> bool) list" where
  "pop_all env [] pops = pops"
| "pop_all env (ctx # ctxs) pops =
     (case pop_raises env ctx of
        None \<Rightarrow> pop_all env ctxs (pops @ [(ctx, True)])
      | Some e \<Rightarrow> pop_all env ctxs (pops @ [(ctx, False)]))"

definition cleanup_all_contexts :: "env \<Rightarrow> (unit, world) prog" where
  "cleanup_all_contexts env w =
     (Inr (), w\<lparr>pop_log := pop_all env (contexts_to_cleanup w) (pop_log w),
               contexts_to_cleanup := []\<rparr>)"

text \<open>Process exit runs the handler that \<open>atexit\<close> holds, if one was registered.\<close>

definition process_exit :: "env \<Rightarrow> (unit, world) prog" where
  "process_exit env w = (if cleanup_registered w then cleanup_all_contexts env w else (Inr (), w))"

text \<open>A sequence of acquisitions, each by some worker and with some behaviour of the driver;
  an acquisition that raises leaves the later ones to run, as in a long-lived process.\<close>

fun acquisitions :: "(nat \<times> exn option) list \<Rightarrow> world \<Rightarrow> world" where
  "acquisitions [] w = w"
| "acquisitions ((tid, drv) # calls) w = acquisitions calls (snd (ensure_cuda_context drv tid w))"

text \<open>
  The invariant of the registry: no context is listed twice, the listed contexts are those
  the workers hold, one per worker, and each was made before.
\<close>

definition registry_ok :: "world \<Rightarrow> bool" where
  "registry_ok w \<longleftrightarrow>
     distinct (contexts_to_cleanup w)
     \<and> set (contexts_to_cleanup w) = ran (thread_local w)
     \<and> finite (dom (thread_local w))
     \<and> length (contexts_to_cleanup w) = card (dom (thread_local w))
     \<and> (\<forall>c. c \<in> set (contexts_to_cleanup w) \<longrightarrow> c < made w)"

text \<open>
  For the examples: five acquisitions by the workers 7 and 8, one of which fails in the
  driver, and a driver whose \<open>pop\<close> fails on context 1.
\<close>

definition demo_calls :: "(nat \<times> exn option) list" where
  "demo_calls = [(7, None), (7, None), (8, Some (Exn CudaError ''no device'')), (8, None),
                 (7, Some (Exn CudaLogicError ''already current''))]"

definition demo_args :: string where
  "demo_args = ''{'' @ [CHR 0x22] @ ''n'' @ [CHR 0x22] @ '': 3}''"

definition demo_env :: env where
  "demo_env =
     \<lparr>context_driver = (\<lambda>_. None),
      pop_raises = (\<lambda>ctx. if ctx = 1 then Some (Exn CudaLogicError ''context is not current'')
                          else None),
      json_loads = (\<lambda>_. Inr [''n'' \<mapsto> 3]),
      fault = (\<lambda>_ _. None),
      perf_counter = (\<lambda>k. real k),
      rand_a = (\<lambda>_ i. real i),
      rand_b = (\<lambda>_ i. 1),
      device_out = (\<lambda>_ a b i. a ! i + b ! i)\<rparr>"

text \<open>
  The same, with one driver call that fails: the first copy to the device, the loading of
  the module, or the launch of the timed iteration 36.
\<close>

definition htod_fault_env :: env where
  "htod_fault_env =
     demo_env\<lparr>fault := (\<lambda>d l. if l = MemcpyHtoD 0
                               then Some (Exn CudaError ''cuMemcpyHtoD failed: invalid argument'')
                               else None)\<rparr>"

definition load_fault_env :: env where
  "load_fault_env =
     demo_env\<lparr>fault := (\<lambda>d l. if l = ModuleFromBuffer
                               then Some (Exn CudaError ''cuModuleLoadDataEx failed: invalid image'')
                               else None)\<rparr>"

definition launch_fault_env :: env where
  "launch_fault_env =
     demo_env\<lparr>fault := (\<lambda>d l. if l = Launch 37
                               then Some (Exn CudaError ''cuLaunchKernel failed: launch failed'')
                               else None)\<rparr>"

text \<open>
  Two more: a problem of size zero, and a comparison run (depth 1) whose module cannot be
  loaded.
\<close>

definition zero_size_env :: env where
  "zero_size_env = demo_env\<lparr>json_loads := (\<lambda>_. Inr [''n'' \<mapsto> 0])\<rparr>"

definition baseline_fault_env :: env where
  "baseline_fault_env =
     demo_env\<lparr>fault := (\<lambda>d l. if d = 1 \<and> l = ModuleFromBuffer
                               then Some (Exn CudaError ''cuModuleLoadDataEx failed: invalid image'')
                               else None)\<rparr>"

section \<open>Benchmark harness: \<open>KernelRunner.run\<close>\<close>

text \<open>
  A driver call that completes is appended to the trace; one that raises leaves the state
  as it is.
\<close>

definition driver :: "env \<Rightarrow> nat \<Rightarrow> label \<Rightarrow> (unit, world) prog" where
  "driver env d l w =
     (case fault env d l of
        Some e \<Rightarrow> (Inl e, w)
      | None \<Rightarrow> (Inr (), w\<lparr>trace := trace w @ [Op d l]\<rparr>))"

text \<open>\<open>cuda.mem_alloc\<close> yields a new buffer; \<open>free\<close> takes it off the allocated ones.\<close>

definition mem_alloc :: "env \<Rightarrow> nat \<Rightarrow> nat \<Rightarrow> (nat, world) prog" where
  "mem_alloc env d i =
     bind (driver env d (MemAlloc i))
       (\<lambda>_ w. (Inr (allocated w),
                w\<lparr>live := live w @ [allocated w], allocated := Suc (allocated w)\<rparr>))"

definition mem_free :: "env \<Rightarrow> nat \<Rightarrow> nat \<Rightarrow> nat \<Rightarrow> (unit, world) prog" where
  "mem_free env d i buf =
     bind (driver env d (Free i)) (\<lambda>_ w. (Inr (), w\<lparr>live := remove1 buf (live w)\<rparr>))"

definition time_perf_counter :: "env \<Rightarrow> (real, world) prog" where
  "time_perf_counter env w =
     (Inr (perf_counter env (ticks w)),
      w\<lparr>ticks := Suc (ticks w), trace := trace w @ [PerfCounter (ticks w)]\<rparr>)"

text \<open>
  \<open>parse_kernel_args(args_str or '{"n": 1024}')\<close>: without an argument string the
  dictionary is that of the default literal; otherwise it is what \<open>json.loads\<close> makes of
  the string (the values of the dictionary are taken to be integers).
\<close>

definition parse_kernel_args :: "env \<Rightarrow> string option \<Rightarrow> exn + (string \<rightharpoonup> int)" where
  "parse_kernel_args env args_str =
     (case args_str of
        None \<Rightarrow> Inr [''n'' \<mapsto> 1024]
      | Some s \<Rightarrow> if s = [] then Inr [''n'' \<mapsto> 1024] else json_loads env s)"

text \<open>
  \<open>_load_cubin\<close>: the file is read, then the module is built; the handler around
  \<open>module_from_buffer\<close> prints and raises the exception again.
\<close>

definition load_cubin :: "env \<Rightarrow> nat \<Rightarrow> (unit, world) prog" where
  "load_cubin env d =
     bind (driver env d OpenFile)
       (\<lambda>_ w. case driver env d ModuleFromBuffer w of
                 (Inl e, w') \<Rightarrow> (Inl e, w')
               | (Inr cuda_module, w') \<Rightarrow> (Inr cuda_module, w'))"

definition get_first_kernel_name :: "unit \<Rightarrow> string" where
  "get_first_kernel_name cuda_module = ''vector_add''"

text \<open>\<open>np.random.rand(n)\<close> raises for a negative size.\<close>

definition np_random_rand :: "(nat \<Rightarrow> real) \<Rightarrow> int \<Rightarrow> exn + real list" where
  "np_random_rand gen n =
     (if n < 0 then Inl (Exn ValueError ''negative dimensions are not allowed'')
      else Inr (map gen [0..<nat n]))"

text \<open>\<open>np.max\<close> and \<open>np.min\<close> raise on an empty array.\<close>

definition np_max :: "real list \<Rightarrow> exn + real" where
  "np_max xs =
     (case xs of
        [] \<Rightarrow> Inl (Exn ValueError
                ''zero-size array to reduction operation maximum which has no identity'')
      | x # ys \<Rightarrow> Inr (fold max ys x))"

definition np_min :: "real list \<Rightarrow> exn + real" where
  "np_min xs =
     (case xs of
        [] \<Rightarrow> Inl (Exn ValueError
                ''zero-size array to reduction operation minimum which has no identity'')
      | x # ys \<Rightarrow> Inr (fold min ys x))"

definition np_mean :: "real list \<Rightarrow> real" where
  "np_mean xs = sum_list xs / real (length xs)"

definition np_std :: "real list \<Rightarrow> real" where
  "np_std xs = sqrt (np_mean (map (\<lambda>x. (x - np_mean xs)\<^sup>2) xs))"

text \<open>The \<open>timing\<close> dictionary of the list of measured times (never empty in \<open>run\<close>).\<close>

definition timing_of :: "real list \<Rightarrow> exn + timing" where
  "timing_of elapsed =
     (case np_min elapsed of
        Inl e \<Rightarrow> Inl e
      | Inr lo \<Rightarrow>
     (case np_max elapsed of
        Inl e \<Rightarrow> Inl e
      | Inr hi \<Rightarrow>
          Inr \<lparr>mean_ms = np_mean elapsed * 1000, std_ms = np_std elapsed * 1000,
               min_ms = lo * 1000, max_ms = hi * 1000\<rparr>))"

text \<open>
  The benchmark loop: \<open>k\<close> more iterations, the next one being iteration \<open>i\<close>; each reads
  the clock, launches, synchronizes, reads the clock again and appends the difference.
\<close>

fun timed_loop :: "env \<Rightarrow> nat \<Rightarrow> nat \<Rightarrow> nat \<Rightarrow> real list \<Rightarrow> (real list, world) prog" where
  "timed_loop env d 0 i elapsed = ret elapsed"
| "timed_loop env d (Suc k) i elapsed =
     bind (time_perf_counter env) (\<lambda>start.
     bind (driver env d (Launch (Suc i))) (\<lambda>_.
     bind (driver env d (Synchronize (Suc i))) (\<lambda>_.
     bind (time_perf_counter env) (\<lambda>stop.
     timed_loop env d k (Suc i) (elapsed @ [stop - start])))))"

definition make_sample :: "real list \<Rightarrow> real list \<Rightarrow> real list \<Rightarrow> real list \<Rightarrow> nat \<Rightarrow> sample" where
  "make_sample a b c expected i =
     \<lparr>s_idx = i, s_a = a ! i, s_b = b ! i, s_out = c ! i, s_expected = expected ! i,
      s_error = \<bar>c ! i - expected ! i\<bar>\<rparr>"

text \<open>
  What follows the copy of the output in the \<open>try\<close> block, up to and including
  \<open>results.update\<close>: the reference result, the largest deviation, the samples and the
  updated dictionary. \<open>c\<close> is the host array after \<open>memcpy_dtoh\<close>.
\<close>

definition summarize ::
  "int \<Rightarrow> real list \<Rightarrow> real list \<Rightarrow> real list \<Rightarrow> real list \<Rightarrow> results \<Rightarrow> exn + results" where
  "summarize n a b c elapsed results =
     (let expected = map2 (+) a b in
      case np_max (map abs (map2 (-) c expected)) of
        Inl e \<Rightarrow> Inl e
      | Inr max_err \<Rightarrow>
          (let sample_count = nat (min 5 n);
               rows = map (make_sample a b c expected) [0..<sample_count]
           in case timing_of elapsed of
                Inl e \<Rightarrow> Inl e
              | Inr t \<Rightarrow>
                  Inr (results\<lparr>success := True,
                               timing := Some t,
                               correctness :=
                                 Some \<lparr>max_error = max_err, passed = (max_err < 1 / 1000000)\<rparr>,
                               samples := Some rows,
                               test_size := Some n\<rparr>)))"

text \<open>
  The body of the \<open>try\<close> block up to and including \<open>results.update\<close>: warmup, benchmark,
  copy of the output, and the summary. The host array \<open>c\<close> has \<open>n\<close> entries, filled from the
  device by \<open>memcpy_dtoh\<close>.
\<close>

definition measure_kernel ::
  "env \<Rightarrow> nat \<Rightarrow> int \<Rightarrow> real list \<Rightarrow> real list \<Rightarrow> results \<Rightarrow> (results, world) prog" where
  "measure_kernel env d n a b results =
     bind (driver env d (Launch 0)) (\<lambda>_.
     bind (driver env d (Synchronize 0)) (\<lambda>_.
     bind (timed_loop env d 100 0 []) (\<lambda>elapsed.
     bind (driver env d MemcpyDtoH) (\<lambda>_.
     lift (summarize n a b (map (device_out env d a b) [0..<nat n]) elapsed results)))))"

text \<open>
  The labels of the driver calls in the order of the program: those before the \<open>try\<close>
  block, and those inside it. \<open>first_fault\<close> is the exception of the first call among the
  given ones that raises.
\<close>

definition setup_labels :: "label list" where
  "setup_labels =
     [OpenFile, ModuleFromBuffer, GetFunction, MemAlloc 0, MemAlloc 1, MemAlloc 2,
      MemcpyHtoD 0, MemcpyHtoD 1]"

fun loop_labels :: "nat \<Rightarrow> nat \<Rightarrow> label list" where
  "loop_labels i 0 = []"
| "loop_labels i (Suc k) = [Launch (Suc i), Synchronize (Suc i)] @ loop_labels (Suc i) k"

definition guarded_labels :: "label list" where
  "guarded_labels = [Launch 0, Synchronize 0] @ loop_labels 0 100 @ [MemcpyDtoH]"

fun first_fault :: "env \<Rightarrow> nat \<Rightarrow> label list \<Rightarrow> exn option" where
  "first_fault env d [] = None"
| "first_fault env d (l # ls) =
     (case fault env d l of Some e \<Rightarrow> Some e | None \<Rightarrow> first_fault env d ls)"

text \<open>
  The events of \<open>k\<close> benchmark iterations from iteration \<open>i\<close> on, the clock having been read
  \<open>t\<close> times before, and the times they record.
\<close>

fun loop_events :: "nat \<Rightarrow> nat \<Rightarrow> nat \<Rightarrow> nat \<Rightarrow> event list" where
  "loop_events d t i 0 = []"
| "loop_events d t i (Suc k) =
     [PerfCounter t, Op d (Launch (Suc i)), Op d (Synchronize (Suc i)), PerfCounter (Suc t)]
       @ loop_events d (Suc (Suc t)) (Suc i) k"

fun loop_times :: "env \<Rightarrow> nat \<Rightarrow> nat \<Rightarrow> real list" where
  "loop_times env t 0 = []"
| "loop_times env t (Suc k) =
     (perf_counter env (Suc t) - perf_counter env t) # loop_times env (Suc (Suc t)) k"

text \<open>\<open>except Exception as e: results.update({"success": False, "error": str(e)})\<close>.\<close>

definition on_exception :: "results \<Rightarrow> exn \<Rightarrow> results" where
  "on_exception results e = results\<lparr>success := False, error := Some (exn_str e)\<rparr>"

text \<open>\<open>if compare_with:\<close> is false for \<open>None\<close> and for the empty string.\<close>

definition truthy :: "string option \<Rightarrow> bool" where
  "truthy s = (case s of None \<Rightarrow> False | Some x \<Rightarrow> x \<noteq> [])"

definition initial_results :: "string \<Rightarrow> string \<Rightarrow> results" where
  "initial_results cubin_file name =
     \<lparr>kernel = path_name (Path cubin_file), kernel_name = name, success = False,
      error = None, timing = None, correctness = None, samples = None, test_size = None,
      comparison = None\<rparr>"

text \<open>
  The local variables of \<open>run\<close> when it reaches its \<open>try\<close> block: the problem size, the
  two input arrays, the three device buffers and the \<open>results\<close> dictionary.
\<close>

record locals =
  size_n :: int
  host_a :: "real list"
  host_b :: "real list"
  a_gpu :: nat
  b_gpu :: nat
  c_gpu :: nat
  results0 :: results

definition arg_n :: "(string \<rightharpoonup> int) \<Rightarrow> int" where
  "arg_n args = (case args ''n'' of None \<Rightarrow> 1024 | Some v \<Rightarrow> v)"

text \<open>
  \<open>run\<close> from its first line to the \<open>try\<close>: the context, the arguments, the module and the
  kernel, the test data, the three allocations, the two copies to the device, and the
  initial dictionary. Nothing here is inside a \<open>try\<close>.
\<close>

definition prepare ::
  "env \<Rightarrow> nat \<Rightarrow> nat \<Rightarrow> string \<Rightarrow> string option \<Rightarrow> (locals, world) prog" where
  "prepare env tid d cubin_file args_str =
     bind (ensure_cuda_context (context_driver env d) tid) (\<lambda>_.
     bind (lift (parse_kernel_args env args_str)) (\<lambda>args.
     bind (load_cubin env d) (\<lambda>cuda_module.
     bind (driver env d GetFunction) (\<lambda>kernel_fn.
     bind (lift (np_random_rand (rand_a env d) (arg_n args))) (\<lambda>a.
     bind (lift (np_random_rand (rand_b env d) (arg_n args))) (\<lambda>b.
     bind (mem_alloc env d 0) (\<lambda>buf_a.
     bind (mem_alloc env d 1) (\<lambda>buf_b.
     bind (mem_alloc env d 2) (\<lambda>buf_c.
     bind (driver env d (MemcpyHtoD 0)) (\<lambda>_.
     bind (driver env d (MemcpyHtoD 1)) (\<lambda>_.
     ret \<lparr>size_n = arg_n args, host_a = a, host_b = b,
          a_gpu = buf_a, b_gpu = buf_b, c_gpu = buf_c,
          results0 = initial_results cubin_file (get_first_kernel_name cuda_module)\<rparr>
     )))))))))))"

text \<open>The \<open>finally\<close> block: the three buffers are freed in turn.\<close>

definition release :: "env \<Rightarrow> nat \<Rightarrow> locals \<Rightarrow> (unit, world) prog" where
  "release env d loc =
     bind (mem_free env d 0 (a_gpu loc)) (\<lambda>_.
     bind (mem_free env d 1 (b_gpu loc)) (\<lambda>_.
     mem_free env d 2 (c_gpu loc)))"

text \<open>
  \<open>run\<close> for the worker \<open>tid\<close>, as invocation \<open>d\<close>. The handler of the \<open>try\<close> block updates
  the dictionary as it stands when the exception is raised: the initial one while the
  measurements run, the updated one while the comparison runs. The comparison run is
  \<open>self.run(compare_with, args_str)\<close>, whose own \<open>compare_with\<close> is \<open>None\<close>.
\<close>

function run ::
  "env \<Rightarrow> nat \<Rightarrow> nat \<Rightarrow> string \<Rightarrow> string option \<Rightarrow> string option \<Rightarrow> (results, world) prog" where
  "run env tid d cubin_file args_str compare_with =
     bind (prepare env tid d cubin_file args_str) (\<lambda>loc.
     try_finally
       (try_except
          (measure_kernel env d (size_n loc) (host_a loc) (host_b loc) (results0 loc))
          (on_exception (results0 loc))
          (\<lambda>results.
             if truthy compare_with then
               try_except
                 (bind (run env tid (Suc d) (the compare_with) args_str None)
                    (\<lambda>compare_results'. lift (compare_results results compare_results')))
                 (on_exception results)
                 (\<lambda>cmp. ret (results\<lparr>comparison := Some cmp\<rparr>))
             else ret results))
       (release env d loc))"
  by pat_completeness auto
termination
  by (relation "measure (\<lambda>(env, tid, d, cubin_file, args_str, compare_with).
                  if truthy compare_with then 1 else 0)")
     (auto simp add: truthy_def)

declare run.simps [simp del]

section \<open>Properties of the comparison engine\<close>

text \<open>
  C1. For two run results that both have \<open>success = True\<close> (and hence carry their timing and
  correctness entries), with a candidate mean time that is not zero, the comparison has
  speedup = baseline mean / candidate mean, speedup_percent = (speedup - 1) * 100 and
  both_correct = the conjunction of the two \<open>passed\<close> flags.
\<close>

theorem compare_results_speedup:
  assumes "success new_results" and "success old_results"
    and "timing new_results = Some tn" and "timing old_results = Some tb"
    and "correctness new_results = Some cn" and "correctness old_results = Some cb"
    and "mean_ms tn \<noteq> 0"
  shows "compare_results new_results old_results =
           Inr (CmpValues
             \<lparr>speedup = mean_ms tb / mean_ms tn,
              speedup_percent = (mean_ms tb / mean_ms tn - 1) * 100,
              original_ms = mean_ms tb,
              modified_ms = mean_ms tn,
              both_correct = (passed cn \<and> passed cb)\<rparr>)"
  using assms
  by (cases "passed cn")
     (simp_all add: compare_results_def timing_mean_def both_passed_def
        correctness_passed_def Let_def)

text \<open>The literal case of C1: baseline mean 2.0 ms, candidate mean 1.0 ms.\<close>

theorem compare_results_speedup_witness:
  "compare_results (ok_result 1 True) (ok_result 2 True) =
     Inr (CmpValues \<lparr>speedup = 2, speedup_percent = 100, original_ms = 2,
                     modified_ms = 1, both_correct = True\<rparr>)"
  using compare_results_speedup [of "ok_result 1 True" "ok_result 2 True"
      "\<lparr>mean_ms = 1, std_ms = 0, min_ms = 1, max_ms = 1\<rparr>"
      "\<lparr>mean_ms = 2, std_ms = 0, min_ms = 2, max_ms = 2\<rparr>"
      "\<lparr>max_error = 0, passed = True\<rparr>" "\<lparr>max_error = 0, passed = True\<rparr>"]
  by (simp add: ok_result_def)

text \<open>
  C2, as the spec words it, names the payload \<open>{error: "one or both kernels failed"}\<close>. The
  message of the source starts with a capital letter, so the payload of the spec is not
  the one returned.
\<close>

theorem compare_results_message_counterexample:
  "compare_results (failed_result ''launch failed'') (ok_result 1 True)
     \<noteq> Inr (CmpError ''one or both kernels failed'')"
  by (simp add: compare_results_def failed_result_def ok_result_def)

text \<open>
  C2, amended. When at least one of the two run results has \<open>success = False\<close>, the comparison
  returns the payload \<open>{"error": "One or both kernels failed"}\<close>: it does not raise, and the
  payload carries no speedup.
\<close>

theorem compare_results_failed:
  assumes "\<not> success new_results \<or> \<not> success old_results"
  shows "compare_results new_results old_results =
           Inr (CmpError ''One or both kernels failed'')"
  using assms by (auto simp add: compare_results_def)

theorem compare_results_failed_witness:
  "success (ok_result 1 True) \<and> \<not> success (failed_result ''launch failed'')
   \<and> compare_results (ok_result 1 True) (failed_result ''launch failed'') =
       Inr (CmpError ''One or both kernels failed'')"
  using compare_results_failed [of "ok_result 1 True" "failed_result ''launch failed''"]
  by (simp add: failed_result_def ok_result_def)

section \<open>Properties of the external tool invoker\<close>

text \<open>
  C7, as the spec words it, has the failure of a tool carry the command. The exception that
  \<open>run_command\<close> raises is made of the exit code and the captured stderr only: two
  different commands that fail alike raise the same exception.
\<close>

theorem run_command_command_counterexample:
  "[''nvdisasm'', ''a.cubin''] \<noteq> [''cuasm'', ''b.cuasm'']
   \<and> run_command demo_tools [''nvdisasm'', ''a.cubin''] empty_fs =
       run_command demo_tools [''cuasm'', ''b.cuasm''] empty_fs"
  by (simp add: run_command_def demo_tools_def empty_fs_def Path_def)

text \<open>
  C7, amended. On exit code zero \<open>run_command\<close> returns the pair (stdout, stderr). A non-zero
  exit code raises a \<open>RuntimeError\<close> whose message holds the exit code and the captured
  stderr, and not the command. A missing program raises \<open>FileNotFoundError\<close>, which
  \<open>run_command\<close> lets through: an exception of another class than the one of a failing
  invocation.
\<close>

theorem run_command_outcomes:
  "(sh cmd fs = (Some r, fs') \<and> returncode r = 0 \<longrightarrow>
      run_command sh cmd fs = (Inr (stdout r, stderr r), fs'))
   \<and> (sh cmd fs = (Some r, fs') \<and> returncode r \<noteq> 0 \<longrightarrow>
      run_command sh cmd fs =
        (Inl (Exn RuntimeError
           (''Command failed with exit code '' @ str_int (returncode r) @ '':'' @ [CHR 0x0A]
              @ stderr r)), fs'))
   \<and> (sh cmd fs = (None, fs') \<longrightarrow>
      (\<exists>msg. run_command sh cmd fs = (Inl (Exn FileNotFoundError msg), fs')))"
  by (simp add: run_command_def command_failed_def no_such_file_def)

theorem run_command_outcomes_witness:
  "run_command demo_tools [''cuasm'', ''k.cuasm'']
      (empty_fs\<lparr>files := [Path ''k.cuasm'' \<mapsto> ''code'']\<rparr>) =
     (Inr (''text'', []), empty_fs\<lparr>files := [Path ''k.cuasm'' \<mapsto> ''code'']\<rparr>)
   \<and> run_command demo_tools [''cuasm'', ''k.cuasm''] empty_fs =
     (Inl (Exn RuntimeError
        (''Command failed with exit code 255:'' @ [CHR 0x0A] @ ''fatal: could not open input file'')),
      empty_fs)
   \<and> (\<exists>msg. run_command demo_tools [''nvcc'', ''--version''] empty_fs =
          (Inl (Exn FileNotFoundError msg), empty_fs))"
  using run_command_outcomes [of demo_tools "[''cuasm'', ''k.cuasm'']"
          "empty_fs\<lparr>files := [Path ''k.cuasm'' \<mapsto> ''code'']\<rparr>"
          "Completed 0 ''text'' []" "empty_fs\<lparr>files := [Path ''k.cuasm'' \<mapsto> ''code'']\<rparr>"]
        run_command_outcomes [of demo_tools "[''cuasm'', ''k.cuasm'']" empty_fs
          "Completed 255 [] ''fatal: could not open input file''" empty_fs]
        run_command_outcomes [of demo_tools "[''nvcc'', ''--version'']" empty_fs _ empty_fs]
  by (simp add: demo_tools_def empty_fs_def Path_def str_int_def)

section \<open>Properties of the stages\<close>

lemma make_dirs_files: "files (snd (make_dirs p qs fs)) = files fs"
  by (induction qs arbitrary: fs) (simp_all add: is_dir_def)

lemma ensure_dir_files: "files (snd (ensure_dir s fs)) = files fs"
  using make_dirs_files [of "Path s" "ancestors (Path s)" fs]
  by (auto simp add: ensure_dir_def Let_def split: prod.splits sum.splits)

lemma ensure_dir_existing:
  "is_dir fs (Path s) \<Longrightarrow> ensure_dir s fs = (Inr (Path s), fs)"
  by (simp add: ensure_dir_def)

text \<open>
  The encode stage checks its input: once the output directory is there, a missing CuASM
  file raises \<open>FileNotFoundError\<close> before any tool runs, and no file is written.
\<close>

lemma assemble_missing_input:
  assumes out: "ensure_dir output_dir fs = (Inr out, fs1)"
    and missing: "\<not> path_exists fs1 (Path cuasm_file)"
  shows "\<exists>msg. assemble sh cuasm_file output_dir fs = (Inl (Exn FileNotFoundError msg), fs1)
           \<and> files fs1 = files fs"
proof -
  have "files fs1 = files fs"
    using ensure_dir_files [of output_dir fs] out by simp
  then show ?thesis
    using missing by (simp add: assemble_def bind_def out Let_def)
qed

text \<open>
  C8 at a failing input. The decode stage has no such check: \<open>disassemble\<close> hands the missing
  path to \<open>nvdisasm\<close>, and what it raises is the \<open>RuntimeError\<close> of the failed tool, not
  \<open>FileNotFoundError\<close>. No file is written.
\<close>

theorem disassemble_missing_input:
  "\<not> path_exists empty_fs (Path ''missing.cubin'')
   \<and> fst (disassemble demo_tools ''missing.cubin'' ''build'' empty_fs) =
       Inl (Exn RuntimeError
         (''Command failed with exit code 255:'' @ [CHR 0x0A] @ ''fatal: could not open input file''))
   \<and> files (snd (disassemble demo_tools ''missing.cubin'' ''build'' empty_fs)) = Map.empty"
proof -
  have out: "ensure_dir ''build'' empty_fs =
      (Inr (Path ''build''), empty_fs\<lparr>dirs := {Path ''build''}\<rparr>)"
    by (simp add: ensure_dir_def Let_def ancestors_def is_dir_def parent_def empty_fs_def
        Path_def)
  show ?thesis
    by (simp add: disassemble_def bind_def out run_command_def demo_tools_def Let_def
        command_failed_def str_int_def path_exists_def is_dir_def)
       (simp add: empty_fs_def Path_def path_str_def)
qed

text \<open>
  C10, as the spec words it, has \<open>compile\<close> raise \<open>ValueError\<close> or \<open>NotImplementedError\<close> for
  every such source file. \<open>compile\<close> makes the output directory first: where a regular file
  stands at the path of the output directory, it raises \<open>FileExistsError\<close>, whatever the
  suffix of the source file is.
\<close>

theorem compile_output_dir_counterexample:
  "fst (compile demo_tools ''src/kernel.py'' ''build''
          (empty_fs\<lparr>files := [Path ''build'' \<mapsto> ''notes'']\<rparr>)) =
     Inl (Exn FileExistsError (''[Errno 17] File exists: '' @ quoted ''build''))
   \<and> fst (compile demo_tools ''src/kernel.txt'' ''build''
          (empty_fs\<lparr>files := [Path ''build'' \<mapsto> ''notes'']\<rparr>)) =
     Inl (Exn FileExistsError (''[Errno 17] File exists: '' @ quoted ''build''))"
  by (simp add: compile_def bind_def ensure_dir_def Let_def ancestors_def is_dir_def
      empty_fs_def Path_def file_exists_def path_str_def)

text \<open>
  C10, amended. When the output directory exists or can be made, a source file whose suffix
  is neither \<open>.cu\<close> nor \<open>.py\<close> makes \<open>compile\<close> raise a \<open>ValueError\<close> that names the suffix,
  and a source file with suffix \<open>.py\<close> always makes it raise \<open>NotImplementedError\<close>,
  whatever the installed tools are. When the output directory cannot be made, \<open>compile\<close>
  raises the exception of \<open>mkdir\<close>.
\<close>

theorem compile_unsupported:
  "(ensure_dir output_dir fs = (Inr out, fs1)
    \<and> path_suffix (Path input_file) \<noteq> ''.cu'' \<and> path_suffix (Path input_file) \<noteq> ''.py'' \<longrightarrow>
      compile sh input_file output_dir fs =
        (Inl (Exn ValueError (''Unsupported file type: '' @ path_suffix (Path input_file))), fs1))
   \<and> (ensure_dir output_dir fs = (Inr out, fs1)
      \<and> path_suffix (Path input_file) = ''.py'' \<longrightarrow>
      compile sh input_file output_dir fs =
        (Inl (Exn NotImplementedError ''Triton compilation not yet implemented''), fs1))
   \<and> (ensure_dir output_dir fs = (Inl e, fs1) \<longrightarrow>
      compile sh input_file output_dir fs = (Inl e, fs1))"
  by (simp add: compile_def compile_triton_def bind_def raise_def Let_def)

theorem compile_unsupported_witness:
  "fst (compile demo_tools ''src/kernel.txt'' ''build'' empty_fs) =
     Inl (Exn ValueError ''Unsupported file type: .txt'')
   \<and> fst (compile demo_tools ''src/kernel.py'' ''build'' empty_fs) =
     Inl (Exn NotImplementedError ''Triton compilation not yet implemented'')
   \<and> fst (compile demo_tools ''src/kernel.py'' ''build''
          (empty_fs\<lparr>readonly := {Path []}\<rparr>)) =
     Inl (Exn PermissionError (''[Errno 13] Permission denied: '' @ quoted ''build''))"
proof -
  have out: "ensure_dir ''build'' empty_fs =
      (Inr (Path ''build''), empty_fs\<lparr>dirs := {Path ''build''}\<rparr>)"
    by (simp add: ensure_dir_def Let_def ancestors_def is_dir_def parent_def empty_fs_def
        Path_def)
  have denied: "ensure_dir ''build'' (empty_fs\<lparr>readonly := {Path []}\<rparr>) =
      (Inl (Exn PermissionError (''[Errno 13] Permission denied: '' @ quoted ''build'')),
       empty_fs\<lparr>readonly := {Path []}\<rparr>)"
    by (simp add: ensure_dir_def Let_def ancestors_def is_dir_def parent_def empty_fs_def
        Path_def permission_denied_def path_str_def)
  have other: "path_suffix (Path ''src/kernel.txt'') = ''.txt''"
    and py: "path_suffix (Path ''src/kernel.py'') = ''.py''"
    by (simp_all add: Path_def path_suffix_def path_name_def)
  show ?thesis
    using compile_unsupported [of "''build''" empty_fs "Path ''build''"
              "empty_fs\<lparr>dirs := {Path ''build''}\<rparr>" "''src/kernel.txt''" demo_tools]
          compile_unsupported [of "''build''" empty_fs "Path ''build''"
              "empty_fs\<lparr>dirs := {Path ''build''}\<rparr>" "''src/kernel.py''" demo_tools]
          compile_unsupported [of "''build''" "empty_fs\<lparr>readonly := {Path []}\<rparr>" _
              "empty_fs\<lparr>readonly := {Path []}\<rparr>" "''src/kernel.py''" demo_tools
              "Exn PermissionError (''[Errno 13] Permission denied: '' @ quoted ''build'')"]
    by (simp add: out denied other py)
qed

section \<open>Properties of the execution context manager\<close>

lemma registry_ok_initial: "registry_ok (init_runner initial_world)"
  by (simp add: registry_ok_def init_runner_def initial_world_def)

lemma ensure_registered:
  "thread_local w tid = Some ctx \<Longrightarrow> snd (ensure_cuda_context drv tid w) = w"
  by (simp add: ensure_cuda_context_def split: option.splits)

lemma ensure_raises:
  "thread_local w tid = None \<Longrightarrow> drv = Some e \<Longrightarrow> ensure_cuda_context drv tid w = (Inl e, w)"
  by (simp add: ensure_cuda_context_def)

lemma ensure_creates:
  "thread_local w tid = None \<Longrightarrow>
     ensure_cuda_context None tid w =
       (Inr (), w\<lparr>made := Suc (made w),
                  thread_local := (thread_local w)(tid \<mapsto> made w),
                  contexts_to_cleanup := contexts_to_cleanup w @ [made w]\<rparr>)"
  by (simp add: ensure_cuda_context_def Let_def)

lemma registry_ok_create:
  assumes ok: "registry_ok w" and none: "thread_local w tid = None"
  shows "registry_ok (w\<lparr>made := Suc (made w),
                  thread_local := (thread_local w)(tid \<mapsto> made w),
                  contexts_to_cleanup := contexts_to_cleanup w @ [made w]\<rparr>)"
proof -
  have fresh: "made w \<notin> set (contexts_to_cleanup w)"
    using ok unfolding registry_ok_def by blast
  have notin: "tid \<notin> dom (thread_local w)" using none by auto
  have r: "ran ((thread_local w)(tid \<mapsto> made w)) = insert (made w) (ran (thread_local w))"
    using none by simp
  have fin: "finite (dom (thread_local w))" using ok unfolding registry_ok_def by blast
  have c: "card (insert tid (dom (thread_local w))) = Suc (card (dom (thread_local w)))"
    using fin notin by simp
  have len: "length (contexts_to_cleanup w) = card (dom (thread_local w))"
    using ok unfolding registry_ok_def by blast
  have d: "distinct (contexts_to_cleanup w)" using ok unfolding registry_ok_def by blast
  have s: "set (contexts_to_cleanup w) = ran (thread_local w)"
    using ok unfolding registry_ok_def by blast
  have b: "\<forall>c. c \<in> set (contexts_to_cleanup w) \<longrightarrow> c < made w"
    using ok unfolding registry_ok_def by blast
  show ?thesis
    unfolding registry_ok_def
    using fresh r fin c len d s b by (simp add: less_Suc_eq)
qed

lemma ensure_registry_ok:
  assumes "registry_ok w"
  shows "registry_ok (snd (ensure_cuda_context drv tid w))"
proof (cases "thread_local w tid")
  case (Some ctx)
  then show ?thesis using assms by (simp add: ensure_registered)
next
  case None
  show ?thesis
  proof (cases drv)
    case (Some e)
    then show ?thesis using None assms by (simp add: ensure_raises)
  next
    case drv: None
    show ?thesis
      using registry_ok_create [OF assms None] by (simp add: drv ensure_creates [OF None])
  qed
qed


lemma acquisitions_registry_ok:
  "registry_ok w \<Longrightarrow> registry_ok (acquisitions calls w)"
proof (induction calls arbitrary: w)
  case Nil
  then show ?case by simp
next
  case (Cons call calls)
  obtain tid drv where call: "call = (tid, drv)" by (cases call)
  show ?case
    unfolding call acquisitions.simps
    by (rule Cons.IH [OF ensure_registry_ok [OF Cons.prems]])
qed

lemma ensure_frame:
  "dom (thread_local (snd (ensure_cuda_context drv tid w))) \<subseteq> insert tid (dom (thread_local w))
   \<and> cleanup_registered (snd (ensure_cuda_context drv tid w)) = cleanup_registered w
   \<and> pop_log (snd (ensure_cuda_context drv tid w)) = pop_log w"
proof (cases "thread_local w tid")
  case (Some ctx)
  then show ?thesis by (auto simp add: ensure_registered)
next
  case None
  then show ?thesis
    by (cases drv) (auto simp add: ensure_raises ensure_creates)
qed

lemma acquisitions_frame:
  "dom (thread_local (acquisitions calls w)) \<subseteq> dom (thread_local w) \<union> fst ` set calls
   \<and> cleanup_registered (acquisitions calls w) = cleanup_registered w
   \<and> pop_log (acquisitions calls w) = pop_log w"
proof (induction calls arbitrary: w)
  case Nil
  then show ?case by simp
next
  case (Cons call calls)
  obtain tid drv where call: "call = (tid, drv)" by (cases call)
  have step: "dom (thread_local (snd (ensure_cuda_context drv tid w))) \<subseteq> insert tid (dom (thread_local w))"
    using ensure_frame [of drv tid w] by blast
  have ih: "dom (thread_local (acquisitions calls (snd (ensure_cuda_context drv tid w))))
              \<subseteq> dom (thread_local (snd (ensure_cuda_context drv tid w))) \<union> fst ` set calls"
    using Cons.IH [of "snd (ensure_cuda_context drv tid w)"] by blast
  have img: "fst ` set ((tid, drv) # calls) = insert tid (fst ` set calls)" by simp
  have d: "dom (thread_local (acquisitions calls (snd (ensure_cuda_context drv tid w))))
             \<subseteq> dom (thread_local w) \<union> insert tid (fst ` set calls)"
    using step ih by blast
  have c: "cleanup_registered (acquisitions calls (snd (ensure_cuda_context drv tid w)))
             = cleanup_registered w"
    using Cons.IH [of "snd (ensure_cuda_context drv tid w)"] ensure_frame [of drv tid w] by simp
  have p: "pop_log (acquisitions calls (snd (ensure_cuda_context drv tid w))) = pop_log w"
    using Cons.IH [of "snd (ensure_cuda_context drv tid w)"] ensure_frame [of drv tid w] by simp
  show ?case
    unfolding call acquisitions.simps img using d c p by blast
qed

lemma pop_all_contexts: "map fst (pop_all env ctxs pops) = map fst pops @ ctxs"
  by (induction ctxs arbitrary: pops) (auto split: option.splits)

lemma count_list_distinct:
  "distinct xs \<Longrightarrow> count_list xs x = (if x \<in> set xs then 1 else 0)"
  by (induction xs) auto

lemma ensure_twice:
  "length (contexts_to_cleanup (acquisitions [(tid, drv1), (tid, drv2)] w))
     \<le> Suc (length (contexts_to_cleanup w))"
proof (cases "thread_local w tid")
  case (Some ctx)
  then show ?thesis by (simp add: ensure_registered)
next
  case None
  show ?thesis
  proof (cases drv1)
    case (Some e)
    show ?thesis
    proof (cases drv2)
      case drv2: (Some e2)
      then show ?thesis using None Some by (simp add: ensure_raises)
    next
      case drv2: None
      then show ?thesis using None Some by (simp add: ensure_raises ensure_creates)
    qed
  next
    case drv1: None
    have "thread_local (snd (ensure_cuda_context None tid w)) tid = Some (made w)"
      by (simp add: ensure_creates [OF None])
    then show ?thesis
      using None drv1 by (simp add: ensure_registered ensure_creates [OF None])
  qed
qed

text \<open>
  C9. Acquiring a context twice on the same worker adds at most one entry to the registry;
  after any sequence of acquisitions by any workers the registry lists no context twice,
  lists exactly the contexts the workers hold, and has at most one entry per worker. At
  process exit the cleanup handler does not raise, whatever \<open>pop\<close> raises; it calls \<open>pop\<close>
  exactly once on every registered context and on no other, and it clears the registry, so
  that running it again pops nothing.
\<close>

theorem contexts_registered_once_released_once:
  fixes calls :: "(nat \<times> exn option) list" and env :: env
  defines "w \<equiv> acquisitions calls (init_runner initial_world)"
  shows "length (contexts_to_cleanup (acquisitions [(tid, drv1), (tid, drv2)] w))
           \<le> Suc (length (contexts_to_cleanup w))
       \<and> distinct (contexts_to_cleanup w)
       \<and> set (contexts_to_cleanup w) = ran (thread_local w)
       \<and> length (contexts_to_cleanup w) \<le> card (fst ` set calls)
       \<and> fst (process_exit env w) = Inr ()
       \<and> contexts_to_cleanup (snd (process_exit env w)) = []
       \<and> (\<forall>ctx. count_list (map fst (pop_log (snd (process_exit env w)))) ctx =
                   (if ctx \<in> set (contexts_to_cleanup w) then 1 else 0))
       \<and> pop_log (snd (process_exit env (snd (process_exit env w)))) = pop_log (snd (process_exit env w))"
proof -
  have ok: "registry_ok w"
    unfolding w_def by (rule acquisitions_registry_ok [OF registry_ok_initial])
  have frame: "dom (thread_local w) \<subseteq> fst ` set calls \<and> cleanup_registered w \<and> pop_log w = []"
    using acquisitions_frame [of calls "init_runner initial_world"]
    unfolding w_def by (simp add: init_runner_def initial_world_def)
  have d: "distinct (contexts_to_cleanup w)" using ok unfolding registry_ok_def by blast
  have s: "set (contexts_to_cleanup w) = ran (thread_local w)"
    using ok unfolding registry_ok_def by blast
  have "length (contexts_to_cleanup w) = card (dom (thread_local w))"
    using ok unfolding registry_ok_def by blast
  then have len: "length (contexts_to_cleanup w) \<le> card (fst ` set calls)"
    using frame by (simp add: card_mono)
  have ex: "process_exit env w =
              (Inr (), w\<lparr>pop_log := pop_all env (contexts_to_cleanup w) [],
                         contexts_to_cleanup := []\<rparr>)"
    using frame by (simp add: process_exit_def cleanup_all_contexts_def)
  have cnt: "\<forall>ctx. count_list (map fst (pop_log (snd (process_exit env w)))) ctx =
                   (if ctx \<in> set (contexts_to_cleanup w) then 1 else 0)"
    using d by (simp add: ex pop_all_contexts count_list_distinct)
  have again: "pop_log (snd (process_exit env (snd (process_exit env w)))) = pop_log (snd (process_exit env w))"
    using frame by (simp add: ex process_exit_def cleanup_all_contexts_def)
  show ?thesis
    using ensure_twice [of tid drv1 drv2 w] d s len cnt again by (simp add: ex)
qed

theorem contexts_registered_once_released_once_witness:
  "contexts_to_cleanup (acquisitions demo_calls (init_runner initial_world)) = [0, 1]
   \<and> length (contexts_to_cleanup (acquisitions demo_calls (init_runner initial_world)))
        \<le> card (fst ` set demo_calls)
   \<and> pop_log (snd (process_exit demo_env (acquisitions demo_calls (init_runner initial_world))))
        = [(0, True), (1, False)]
   \<and> count_list (map fst (pop_log (snd (process_exit demo_env
          (acquisitions demo_calls (init_runner initial_world)))))) 1 = 1"
  using contexts_registered_once_released_once [of 7 None None demo_calls demo_env]
  by (simp add: demo_calls_def demo_env_def init_runner_def initial_world_def
      ensure_cuda_context_def process_exit_def cleanup_all_contexts_def Let_def)

section \<open>Properties of the benchmark harness\<close>

lemma bind_InrE:
  assumes "bind m f s = (Inr y, t)"
  obtains x s' where "m s = (Inr x, s')" and "f x s' = (Inr y, t)"
  using assms by (auto simp add: bind_def split: prod.splits sum.splits)

lemma driver_ok:
  "fault env d l = None \<Longrightarrow> driver env d l w = (Inr (), w\<lparr>trace := trace w @ [Op d l]\<rparr>)"
  by (simp add: driver_def)

lemma driver_fault: "fault env d l = Some e \<Longrightarrow> driver env d l w = (Inl e, w)"
  by (simp add: driver_def)

lemma first_fault_append:
  "first_fault env d (xs @ ys) =
     (case first_fault env d xs of Some e \<Rightarrow> Some e | None \<Rightarrow> first_fault env d ys)"
  by (induction xs) (auto split: option.splits)

lemma first_fault_none: "(\<forall>l. fault env d l = None) \<Longrightarrow> first_fault env d ls = None"
  by (induction ls) auto

lemma timed_loop_ok:
  "first_fault env d (loop_labels i k) = None \<Longrightarrow>
     timed_loop env d k i elapsed w =
       (Inr (elapsed @ loop_times env (ticks w) k),
        w\<lparr>ticks := ticks w + 2 * k, trace := trace w @ loop_events d (ticks w) i k\<rparr>)"
proof (induction k arbitrary: i elapsed w)
  case 0
  then show ?case by (simp add: ret_def)
next
  case (Suc k)
  from Suc.prems have l: "fault env d (Launch (Suc i)) = None"
    and s: "fault env d (Synchronize (Suc i)) = None"
    and rest: "first_fault env d (loop_labels (Suc i) k) = None"
    by (auto split: option.splits)
  show ?case
    by (simp add: Suc.IH [OF rest] bind_def time_perf_counter_def driver_ok [OF l]
        driver_ok [OF s])
qed

lemma timed_loop_fault:
  "first_fault env d (loop_labels i k) = Some e \<Longrightarrow>
     \<exists>w'. timed_loop env d k i elapsed w = (Inl e, w')"
proof (induction k arbitrary: i elapsed w)
  case 0
  then show ?case by simp
next
  case (Suc k)
  show ?case
  proof (cases "fault env d (Launch (Suc i))")
    case (Some e1)
    then have "e1 = e" using Suc.prems by simp
    then show ?thesis
      using Some by (simp add: bind_def time_perf_counter_def driver_fault)
  next
    case l: None
    show ?thesis
    proof (cases "fault env d (Synchronize (Suc i))")
      case (Some e1)
      then have "e1 = e" using Suc.prems l by simp
      then show ?thesis
        using Some l by (simp add: bind_def time_perf_counter_def driver_fault driver_ok)
    next
      case s: None
      have rest: "first_fault env d (loop_labels (Suc i) k) = Some e"
        using Suc.prems l s by simp
      show ?thesis
        using Suc.IH [OF rest]
        by (simp add: bind_def time_perf_counter_def driver_ok [OF l] driver_ok [OF s])
    qed
  qed
qed

lemma guarded_labels_none:
  assumes "first_fault env d guarded_labels = None"
  shows "fault env d (Launch 0) = None" and "fault env d (Synchronize 0) = None"
    and "first_fault env d (loop_labels 0 100) = None" and "fault env d MemcpyDtoH = None"
  using assms
  by (auto simp add: guarded_labels_def first_fault_append split: option.splits)

lemma measure_kernel_ok:
  assumes "first_fault env d guarded_labels = None"
  shows "measure_kernel env d n a b r w =
           (summarize n a b (map (device_out env d a b) [0..<nat n])
              (loop_times env (ticks w) 100) r,
            w\<lparr>ticks := ticks w + 200,
              trace := trace w @ [Op d (Launch 0), Op d (Synchronize 0)]
                         @ loop_events d (ticks w) 0 100 @ [Op d MemcpyDtoH]\<rparr>)"
proof -
  note g = guarded_labels_none [OF assms]
  have loop: "\<And>w0. timed_loop env d 100 0 [] w0 =
       (Inr (loop_times env (ticks w0) 100),
        w0\<lparr>ticks := ticks w0 + 2 * 100, trace := trace w0 @ loop_events d (ticks w0) 0 100\<rparr>)"
    using timed_loop_ok [OF g(3), of "[]"] by simp
  show ?thesis
    unfolding measure_kernel_def
    by (simp add: bind_def driver_ok [OF g(1)] driver_ok [OF g(2)] driver_ok [OF g(4)]
        loop lift_def)
qed

lemma measure_kernel_fault:
  assumes "first_fault env d guarded_labels = Some e"
  shows "\<exists>w'. measure_kernel env d n a b r w = (Inl e, w')"
proof (cases "fault env d (Launch 0)")
  case (Some e1)
  then have "e1 = e" using assms by (simp add: guarded_labels_def)
  then show ?thesis
    using Some by (simp add: measure_kernel_def bind_def driver_fault)
next
  case l: None
  show ?thesis
  proof (cases "fault env d (Synchronize 0)")
    case (Some e1)
    then have "e1 = e" using assms l by (simp add: guarded_labels_def)
    then show ?thesis
      using Some l by (simp add: measure_kernel_def bind_def driver_fault driver_ok)
  next
    case s: None
    show ?thesis
    proof (cases "first_fault env d (loop_labels 0 100)")
      case (Some e1)
      then have e1: "e1 = e"
        using assms l s by (simp add: guarded_labels_def first_fault_append)
      obtain w' where "timed_loop env d 100 0 []
          (w\<lparr>trace := trace w @ [Op d (Launch 0), Op d (Synchronize 0)]\<rparr>) = (Inl e, w')"
        using timed_loop_fault [OF Some [unfolded e1]] by blast
      then show ?thesis
        by (simp add: measure_kernel_def bind_def driver_ok [OF l] driver_ok [OF s])
    next
      case loop: None
      have c: "fault env d MemcpyDtoH = Some e"
        using assms l s loop
        by (simp add: guarded_labels_def first_fault_append split: option.splits)
      show ?thesis
        by (simp add: measure_kernel_def bind_def driver_ok [OF l] driver_ok [OF s]
            timed_loop_ok [OF loop] driver_fault [OF c])
    qed
  qed
qed

lemma setup_labels_none:
  assumes "first_fault env d setup_labels = None"
  shows "fault env d OpenFile = None" and "fault env d ModuleFromBuffer = None"
    and "fault env d GetFunction = None"
    and "fault env d (MemAlloc 0) = None" and "fault env d (MemAlloc 1) = None"
    and "fault env d (MemAlloc 2) = None"
    and "fault env d (MemcpyHtoD 0) = None" and "fault env d (MemcpyHtoD 1) = None"
  using assms by (auto simp add: setup_labels_def split: option.splits)

lemma prepare_ok:
  assumes ctx: "ensure_cuda_context (context_driver env d) tid w = (Inr (), w1)"
    and args: "parse_kernel_args env args_str = Inr args"
    and n: "0 \<le> arg_n args"
    and pre: "first_fault env d setup_labels = None"
  shows "prepare env tid d cubin_file args_str w =
           (Inr \<lparr>size_n = arg_n args,
                 host_a = map (rand_a env d) [0..<nat (arg_n args)],
                 host_b = map (rand_b env d) [0..<nat (arg_n args)],
                 a_gpu = allocated w1, b_gpu = Suc (allocated w1),
                 c_gpu = Suc (Suc (allocated w1)),
                 results0 = initial_results cubin_file ''vector_add''\<rparr>,
            w1\<lparr>trace := trace w1 @ map (Op d) setup_labels,
               live := live w1 @ [allocated w1, Suc (allocated w1), Suc (Suc (allocated w1))],
               allocated := Suc (Suc (Suc (allocated w1)))\<rparr>)"
proof -
  note s = setup_labels_none [OF pre]
  show ?thesis
    unfolding prepare_def
    using n
    by (simp add: bind_def ctx args lift_def load_cubin_def mem_alloc_def np_random_rand_def
        driver_ok [OF s(1)] driver_ok [OF s(2)] driver_ok [OF s(3)] driver_ok [OF s(4)]
        driver_ok [OF s(5) [unfolded One_nat_def]] driver_ok [OF s(6)] driver_ok [OF s(7)] driver_ok [OF s(8) [unfolded One_nat_def]]
        ret_def get_first_kernel_name_def setup_labels_def)
qed

lemma release_ok:
  assumes "\<forall>i. fault env d (Free i) = None"
  shows "release env d loc w =
           (Inr (),
            w\<lparr>trace := trace w @ [Op d (Free 0), Op d (Free 1), Op d (Free 2)],
              live := remove1 (c_gpu loc) (remove1 (b_gpu loc) (remove1 (a_gpu loc) (live w)))\<rparr>)"
  using assms by (simp add: release_def mem_free_def bind_def driver_ok)

lemma run_unfold:
  assumes "prepare env tid d cubin_file args_str w = (Inr loc, w1)"
  shows "run env tid d cubin_file args_str compare_with w =
     try_finally
       (try_except
          (measure_kernel env d (size_n loc) (host_a loc) (host_b loc) (results0 loc))
          (on_exception (results0 loc))
          (\<lambda>results.
             if truthy compare_with then
               try_except
                 (bind (run env tid (Suc d) (the compare_with) args_str None)
                    (\<lambda>compare_results'. lift (compare_results results compare_results')))
                 (on_exception results)
                 (\<lambda>cmp. ret (results\<lparr>comparison := Some cmp\<rparr>))
             else ret results))
       (release env d loc) w1"
  by (subst run.simps) (simp add: bind_def assms)

lemma run_prepare_raises:
  assumes "prepare env tid d cubin_file args_str w = (Inl e, w1)"
  shows "run env tid d cubin_file args_str compare_with w = (Inl e, w1)"
  by (subst run.simps) (simp add: bind_def assms)

lemma ensure_keeps_device:
  "trace (snd (ensure_cuda_context drv tid w)) = trace w
   \<and> ticks (snd (ensure_cuda_context drv tid w)) = ticks w
   \<and> live (snd (ensure_cuda_context drv tid w)) = live w
   \<and> allocated (snd (ensure_cuda_context drv tid w)) = allocated w"
  by (simp add: ensure_cuda_context_def Let_def split: option.splits)

lemma prepare_load_fault:
  assumes ctx: "ensure_cuda_context (context_driver env d) tid w = (Inr (), w1)"
    and args: "parse_kernel_args env args_str = Inr args"
    and opened: "fault env d OpenFile = None"
    and load: "fault env d ModuleFromBuffer = Some e"
  shows "prepare env tid d cubin_file args_str w =
           (Inl e, w1\<lparr>trace := trace w1 @ [Op d OpenFile]\<rparr>)"
  unfolding prepare_def
  by (simp add: bind_def ctx args lift_def load_cubin_def driver_ok [OF opened]
      driver_fault [OF load])

text \<open>
  C4 at a failing input: the module cannot be built from the file. \<open>run\<close> raises the
  exception of the driver; it does not return a dictionary.
\<close>

theorem run_load_failure_counterexample:
  "fst (run load_fault_env 7 0 ''k.cubin'' None None (init_runner initial_world)) =
     Inl (Exn CudaError ''cuModuleLoadDataEx failed: invalid image'')"
proof -
  have ctx: "ensure_cuda_context (context_driver load_fault_env 0) 7 (init_runner initial_world) =
      (Inr (), snd (ensure_cuda_context None 7 (init_runner initial_world)))"
    by (simp add: load_fault_env_def demo_env_def ensure_cuda_context_def init_runner_def
        initial_world_def Let_def)
  have "prepare load_fault_env 7 0 ''k.cubin'' None (init_runner initial_world) =
      (Inl (Exn CudaError ''cuModuleLoadDataEx failed: invalid image''),
       (snd (ensure_cuda_context None 7 (init_runner initial_world)))
         \<lparr>trace := trace (snd (ensure_cuda_context None 7 (init_runner initial_world)))
                    @ [Op 0 OpenFile]\<rparr>)"
    by (rule prepare_load_fault [OF ctx])
       (simp_all add: parse_kernel_args_def load_fault_env_def demo_env_def)
  then show ?thesis by (simp add: run_prepare_raises)
qed

lemma driver_keeps_live: "live (snd (driver env d l w)) = live w"
  by (simp add: driver_def split: option.splits)

lemma bind_keeps_live:
  assumes "\<And>s. live (snd (m s)) = live s" and "\<And>x s. live (snd (f x s)) = live s"
  shows "live (snd (bind m f s)) = live s"
proof (cases "m s")
  case (Pair r s')
  then have "live s' = live s" using assms(1) [of s] by simp
  then show ?thesis
    using Pair assms(2) by (cases r) (simp_all add: bind_def)
qed

lemma timed_loop_keeps_live: "live (snd (timed_loop env d k i elapsed w)) = live w"
proof (induction k arbitrary: i elapsed w)
  case 0
  then show ?case by (simp add: ret_def)
next
  case (Suc k)
  show ?case
    unfolding timed_loop.simps
    by (intro bind_keeps_live driver_keeps_live Suc.IH) (simp_all add: time_perf_counter_def)
qed

lemma measure_kernel_keeps_live: "live (snd (measure_kernel env d n a b r w)) = live w"
  unfolding measure_kernel_def
  by (intro bind_keeps_live driver_keeps_live timed_loop_keeps_live) (simp add: lift_def)

text \<open>
  When the \<open>try\<close> block is reached, the buffers of the invocation are freed whatever happens
  inside the block (shown here for a run without a comparison): from that point on the
  \<open>finally\<close> clause releases them on every path.
\<close>

lemma run_releases_buffers:
  assumes ctx: "ensure_cuda_context (context_driver env d) tid w = (Inr (), w1)"
    and args: "parse_kernel_args env args_str = Inr args"
    and n: "0 \<le> arg_n args"
    and pre: "first_fault env d setup_labels = None"
    and frees: "\<forall>i. fault env d (Free i) = None"
    and single: "\<not> truthy compare_with"
    and fresh: "\<forall>b \<in> set (live w). b < allocated w"
  shows "live (snd (run env tid d cubin_file args_str compare_with w)) = live w"
proof -
  note prep = prepare_ok [OF ctx args n pre, of cubin_file]
  have dev: "live w1 = live w" "allocated w1 = allocated w"
    using ensure_keeps_device [of "context_driver env d" tid w] ctx by simp_all
  define loc where "loc = \<lparr>size_n = arg_n args,
                 host_a = map (rand_a env d) [0..<nat (arg_n args)],
                 host_b = map (rand_b env d) [0..<nat (arg_n args)],
                 a_gpu = allocated w1, b_gpu = Suc (allocated w1),
                 c_gpu = Suc (Suc (allocated w1)),
                 results0 = initial_results cubin_file ''vector_add''\<rparr>"
  define w2 where "w2 = w1\<lparr>trace := trace w1 @ map (Op d) setup_labels,
               live := live w1 @ [allocated w1, Suc (allocated w1), Suc (Suc (allocated w1))],
               allocated := Suc (Suc (Suc (allocated w1)))\<rparr>"
  have prep': "prepare env tid d cubin_file args_str w = (Inr loc, w2)"
    using prep by (simp add: loc_def w2_def)
  obtain r w3 where m: "measure_kernel env d (size_n loc) (host_a loc) (host_b loc)
      (results0 loc) w2 = (r, w3)"
    by (cases "measure_kernel env d (size_n loc) (host_a loc) (host_b loc) (results0 loc) w2")
  have l3: "live w3 = live w2"
    using measure_kernel_keeps_live [of env d "size_n loc" "host_a loc" "host_b loc"
        "results0 loc" w2] m by simp
  have notin: "allocated w \<notin> set (live w)" "Suc (allocated w) \<notin> set (live w)"
    "Suc (Suc (allocated w)) \<notin> set (live w)"
    using fresh by fastforce+
  have "live (snd (run env tid d cubin_file args_str compare_with w)) =
      remove1 (c_gpu loc) (remove1 (b_gpu loc) (remove1 (a_gpu loc) (live w3)))"
    unfolding run_unfold [OF prep']
    using single m
    by (cases r) (simp_all add: try_finally_def try_except_def ret_def release_ok [OF frees])
  also have "\<dots> = live w"
    using notin by (simp add: l3 w2_def loc_def dev remove1_append)
  finally show ?thesis .
qed

text \<open>
  C3 at a failing input: the first copy to the device fails. The three allocations and the
  two copies stand before the \<open>try\<close> block, so the \<open>finally\<close> clause is never reached: \<open>run\<close>
  raises, and the three buffers it allocated stay allocated.
\<close>

theorem run_leaks_on_copy_failure:
  "fst (run htod_fault_env 7 0 ''k.cubin'' (Some demo_args) None (init_runner initial_world)) =
     Inl (Exn CudaError ''cuMemcpyHtoD failed: invalid argument'')
   \<and> live (init_runner initial_world) = []
   \<and> live (snd (run htod_fault_env 7 0 ''k.cubin'' (Some demo_args) None
                  (init_runner initial_world))) = [0, 1, 2]"
proof -
  have "\<exists>w'. prepare htod_fault_env 7 0 ''k.cubin'' (Some demo_args) (init_runner initial_world) =
      (Inl (Exn CudaError ''cuMemcpyHtoD failed: invalid argument''), w') \<and> live w' = [0, 1, 2]"
    by (simp add: prepare_def bind_def ensure_cuda_context_def init_runner_def initial_world_def
        Let_def htod_fault_env_def demo_env_def lift_def parse_kernel_args_def demo_args_def
        load_cubin_def driver_def np_random_rand_def arg_n_def mem_alloc_def)
  then obtain w' where p: "prepare htod_fault_env 7 0 ''k.cubin'' (Some demo_args)
      (init_runner initial_world) =
      (Inl (Exn CudaError ''cuMemcpyHtoD failed: invalid argument''), w')"
    and l: "live w' = [0, 1, 2]" by blast
  have r: "run htod_fault_env 7 0 ''k.cubin'' (Some demo_args) None (init_runner initial_world) =
      (Inl (Exn CudaError ''cuMemcpyHtoD failed: invalid argument''), w')"
    by (rule run_prepare_raises [OF p])
  show ?thesis
    unfolding r by (simp add: l init_runner_def initial_world_def)
qed

lemma upt_0_Suc_map: "[0..<Suc k] = 0 # map Suc [0..<k]"
  by (simp add: upt_conv_Cons map_Suc_upt del: upt_Suc)

lemma loop_events_closed:
  "loop_events d t i k =
     concat (map (\<lambda>j. [PerfCounter (t + 2 * j), Op d (Launch (Suc (i + j))),
                        Op d (Synchronize (Suc (i + j))), PerfCounter (t + 2 * j + 1)])
               [0..<k])"
proof (induction k arbitrary: t i)
  case 0
  then show ?case by simp
next
  case (Suc k)
  show ?case
    unfolding loop_events.simps Suc.IH upt_0_Suc_map
    by (simp add: comp_def)
qed

lemma loop_times_closed:
  "loop_times env t k =
     map (\<lambda>j. perf_counter env (t + 2 * j + 1) - perf_counter env (t + 2 * j)) [0..<k]"
proof (induction k arbitrary: t)
  case 0
  then show ?case by simp
next
  case (Suc k)
  show ?case
    unfolding loop_times.simps Suc.IH upt_0_Suc_map
    by (simp add: comp_def)
qed

text \<open>
  A run without a comparison in which no driver call fails: its value and the state it
  leaves.
\<close>

lemma run_fault_free:
  assumes ctx: "ensure_cuda_context (context_driver env d) tid w = (Inr (), wc)"
    and args: "parse_kernel_args env args_str = Inr args"
    and n: "0 \<le> arg_n args"
    and nofault: "\<forall>l. fault env d l = None"
    and single: "\<not> truthy compare_with"
  shows "run env tid d cubin_file args_str compare_with w =
           ((case summarize (arg_n args)
                    (map (rand_a env d) [0..<nat (arg_n args)])
                    (map (rand_b env d) [0..<nat (arg_n args)])
                    (map (device_out env d (map (rand_a env d) [0..<nat (arg_n args)])
                            (map (rand_b env d) [0..<nat (arg_n args)]))
                       [0..<nat (arg_n args)])
                    (loop_times env (ticks w) 100)
                    (initial_results cubin_file ''vector_add'') of
               Inl e \<Rightarrow> Inr (on_exception (initial_results cubin_file ''vector_add'') e)
             | Inr r \<Rightarrow> Inr r),
            wc\<lparr>ticks := ticks w + 200,
               trace := trace w @ map (Op d) setup_labels
                          @ [Op d (Launch 0), Op d (Synchronize 0)]
                          @ loop_events d (ticks w) 0 100
                          @ [Op d MemcpyDtoH, Op d (Free 0), Op d (Free 1), Op d (Free 2)],
               live := remove1 (Suc (Suc (allocated wc))) (remove1 (Suc (allocated wc))
                         (remove1 (allocated wc)
                            (live wc @ [allocated wc, Suc (allocated wc),
                                        Suc (Suc (allocated wc))]))),
               allocated := Suc (Suc (Suc (allocated wc)))\<rparr>)"
proof -
  have pre: "first_fault env d setup_labels = None"
    and body: "first_fault env d guarded_labels = None"
    and frees: "\<forall>i. fault env d (Free i) = None"
    using nofault by (simp_all add: first_fault_none)
  have dev: "trace wc = trace w" "ticks wc = ticks w"
    using ensure_keeps_device [of "context_driver env d" tid w] ctx by simp_all
  define loc where "loc = \<lparr>size_n = arg_n args,
                 host_a = map (rand_a env d) [0..<nat (arg_n args)],
                 host_b = map (rand_b env d) [0..<nat (arg_n args)],
                 a_gpu = allocated wc, b_gpu = Suc (allocated wc),
                 c_gpu = Suc (Suc (allocated wc)),
                 results0 = initial_results cubin_file ''vector_add''\<rparr>"
  define w2 where "w2 = wc\<lparr>trace := trace wc @ map (Op d) setup_labels,
               live := live wc @ [allocated wc, Suc (allocated wc), Suc (Suc (allocated wc))],
               allocated := Suc (Suc (Suc (allocated wc)))\<rparr>"
  have prep: "prepare env tid d cubin_file args_str w = (Inr loc, w2)"
    using prepare_ok [OF ctx args n pre, of cubin_file] by (simp add: loc_def w2_def)
  define v where "v = summarize (size_n loc) (host_a loc) (host_b loc)
      (map (device_out env d (host_a loc) (host_b loc)) [0..<nat (size_n loc)])
      (loop_times env (ticks w2) 100) (results0 loc)"
  define w3 where "w3 = w2\<lparr>ticks := ticks w2 + 200,
              trace := trace w2 @ [Op d (Launch 0), Op d (Synchronize 0)]
                         @ loop_events d (ticks w2) 0 100 @ [Op d MemcpyDtoH]\<rparr>"
  have m: "measure_kernel env d (size_n loc) (host_a loc) (host_b loc) (results0 loc) w2
             = (v, w3)"
    using measure_kernel_ok [OF body] by (simp add: v_def w3_def)
  have r: "run env tid d cubin_file args_str compare_with w =
      ((case v of Inl e \<Rightarrow> Inr (on_exception (results0 loc) e) | Inr r \<Rightarrow> Inr r),
       w3\<lparr>trace := trace w3 @ [Op d (Free 0), Op d (Free 1), Op d (Free 2)],
          live := remove1 (c_gpu loc) (remove1 (b_gpu loc) (remove1 (a_gpu loc) (live w3)))\<rparr>)"
    unfolding run_unfold [OF prep]
    using single
    by (cases v) (simp_all add: try_finally_def try_except_def m ret_def release_ok [OF frees])
  have t: "ticks w2 = ticks w" by (simp add: w2_def dev)
  show ?thesis
    unfolding r
    by (simp add: w3_def w2_def dev v_def loc_def t split: sum.splits)
qed

text \<open>
  C6. In a run without a comparison in which no driver call fails, the driver calls and
  clock readings are, in this order: the loading of the module and of the kernel, the three
  allocations, the two copies to the device, one launch and one synchronization (the
  warmup, with no clock reading around it), then 100 times clock reading, launch,
  synchronization, clock reading, then one copy from the device, then the three frees. The
  value of the run is the summary of the 100 differences between the two clock readings of
  each timed iteration, and of nothing else.
\<close>

theorem run_protocol:
  assumes ctx: "ensure_cuda_context (context_driver env d) tid w = (Inr (), wc)"
    and args: "parse_kernel_args env args_str = Inr args"
    and n: "0 \<le> arg_n args"
    and nofault: "\<forall>l. fault env d l = None"
    and single: "\<not> truthy compare_with"
  shows "trace (snd (run env tid d cubin_file args_str compare_with w)) =
           trace w
           @ map (Op d) [OpenFile, ModuleFromBuffer, GetFunction,
                         MemAlloc 0, MemAlloc 1, MemAlloc 2, MemcpyHtoD 0, MemcpyHtoD 1,
                         Launch 0, Synchronize 0]
           @ concat (map (\<lambda>i. [PerfCounter (ticks w + 2 * i), Op d (Launch (Suc i)),
                               Op d (Synchronize (Suc i)), PerfCounter (ticks w + 2 * i + 1)])
                      [0..<100])
           @ map (Op d) [MemcpyDtoH, Free 0, Free 1, Free 2]
       \<and> fst (run env tid d cubin_file args_str compare_with w) =
           (let a = map (rand_a env d) [0..<nat (arg_n args)];
                b = map (rand_b env d) [0..<nat (arg_n args)];
                c = map (device_out env d a b) [0..<nat (arg_n args)];
                elapsed = map (\<lambda>i. perf_counter env (ticks w + 2 * i + 1)
                                     - perf_counter env (ticks w + 2 * i)) [0..<100];
                results = initial_results cubin_file ''vector_add''
            in case summarize (arg_n args) a b c elapsed results of
                 Inl e \<Rightarrow> Inr (on_exception results e)
               | Inr r \<Rightarrow> Inr r)"
proof -
  note r = run_fault_free [OF ctx args n nofault single, of cubin_file]
  have tr: "trace (snd (run env tid d cubin_file args_str compare_with w)) =
      trace w @ map (Op d) setup_labels @ [Op d (Launch 0), Op d (Synchronize 0)]
        @ loop_events d (ticks w) 0 100
        @ [Op d MemcpyDtoH, Op d (Free 0), Op d (Free 1), Op d (Free 2)]"
    unfolding r by simp
  have va: "fst (run env tid d cubin_file args_str compare_with w) =
      (case summarize (arg_n args)
                    (map (rand_a env d) [0..<nat (arg_n args)])
                    (map (rand_b env d) [0..<nat (arg_n args)])
                    (map (device_out env d (map (rand_a env d) [0..<nat (arg_n args)])
                            (map (rand_b env d) [0..<nat (arg_n args)]))
                       [0..<nat (arg_n args)])
                    (loop_times env (ticks w) 100)
                    (initial_results cubin_file ''vector_add'') of
               Inl e \<Rightarrow> Inr (on_exception (initial_results cubin_file ''vector_add'') e)
             | Inr r \<Rightarrow> Inr r)"
    unfolding r by simp
  show ?thesis
    unfolding tr va
    by (simp add: loop_events_closed loop_times_closed setup_labels_def Let_def)
qed

theorem run_protocol_witness:
  "trace (snd (run demo_env 7 0 ''k.cubin'' (Some demo_args) None (init_runner initial_world))) =
     map (Op 0) [OpenFile, ModuleFromBuffer, GetFunction,
                 MemAlloc 0, MemAlloc 1, MemAlloc 2, MemcpyHtoD 0, MemcpyHtoD 1,
                 Launch 0, Synchronize 0]
     @ concat (map (\<lambda>i. [PerfCounter (2 * i), Op 0 (Launch (Suc i)),
                         Op 0 (Synchronize (Suc i)), PerfCounter (2 * i + 1)])
                [0..<100])
     @ map (Op 0) [MemcpyDtoH, Free 0, Free 1, Free 2]"
proof -
  have ctx: "ensure_cuda_context (context_driver demo_env 0) 7 (init_runner initial_world) =
      (Inr (), snd (ensure_cuda_context None 7 (init_runner initial_world)))"
    by (simp add: demo_env_def ensure_cuda_context_def init_runner_def initial_world_def Let_def)
  have args: "parse_kernel_args demo_env (Some demo_args) = Inr [''n'' \<mapsto> 3]"
    by (simp add: parse_kernel_args_def demo_args_def demo_env_def)
  have n: "0 \<le> arg_n [''n'' \<mapsto> 3]" by (simp add: arg_n_def)
  have nofault: "\<forall>l. fault demo_env 0 l = None" by (simp add: demo_env_def)
  have single: "\<not> truthy None" by (simp add: truthy_def)
  show ?thesis
    using run_protocol [OF ctx args n nofault single, of "''k.cubin''"]
    by (simp add: init_runner_def initial_world_def)
qed




lemma measure_kernel_InrD:
  assumes "measure_kernel env d n a b r0 w = (Inr r1, w')"
  shows "\<exists>elapsed. summarize n a b (map (device_out env d a b) [0..<nat n]) elapsed r0 = Inr r1"
  using assms unfolding measure_kernel_def
  by (elim bind_InrE) (auto simp add: lift_def)



lemma summarize_ok:
  assumes "0 < n" and "length a = nat n" and "length b = nat n" and "length c = nat n"
    and "elapsed \<noteq> []"
  shows "\<exists>r. summarize n a b c elapsed r0 = Inr r \<and> success r"
proof -
  obtain x xs where a: "a = x # xs" using assms(1,2) by (cases a) auto
  obtain y ys where b: "b = y # ys" using assms(1,3) by (cases b) auto
  obtain z zs where c: "c = z # zs" using assms(1,4) by (cases c) auto
  obtain t ts where e: "elapsed = t # ts" using assms(5) by (cases elapsed) auto
  show ?thesis
    by (simp add: summarize_def Let_def np_max_def np_min_def timing_of_def a b c e)
qed



text \<open>
  A dictionary that \<open>run\<close> returns with \<open>success = True\<close> has its timing and correctness
  entries: these are the run results that the comparison engine is given.
\<close>

lemma run_success_has_entries:
  assumes run: "run env tid d cubin_file args_str compare_with w = (Inr r, w')"
    and succ: "success r"
  shows "\<exists>t c. timing r = Some t \<and> correctness r = Some c"
proof -
  obtain p w2 where prep: "prepare env tid d cubin_file args_str w = (p, w2)"
    by (cases "prepare env tid d cubin_file args_str w")
  obtain loc where loc: "p = Inr loc"
    using run run_prepare_raises [of env tid d cubin_file args_str w _ w2 compare_with] prep
    by (cases p) auto
  note prep = prep [unfolded loc]
  have "\<exists>r1 w3. measure_kernel env d (size_n loc) (host_a loc) (host_b loc) (results0 loc) w2
                  = (Inr r1, w3)
           \<and> timing r = timing r1 \<and> correctness r = correctness r1"
    using run succ unfolding run_unfold [OF prep]
    by (auto simp add: try_finally_def try_except_def ret_def on_exception_def
        split: prod.splits sum.splits if_splits)
  then obtain r1 w3 where m: "measure_kernel env d (size_n loc) (host_a loc) (host_b loc)
        (results0 loc) w2 = (Inr r1, w3)"
    and same: "timing r = timing r1" "correctness r = correctness r1"
    by blast
  obtain elapsed where "summarize (size_n loc) (host_a loc) (host_b loc)
      (map (device_out env d (host_a loc) (host_b loc)) [0..<nat (size_n loc)]) elapsed
      (results0 loc) = Inr r1"
    using measure_kernel_InrD [OF m] by auto
  then have "\<exists>t c. timing r1 = Some t \<and> correctness r1 = Some c"
    by (auto simp add: summarize_def Let_def split: sum.splits)
  then show ?thesis by (simp add: same)
qed

lemma ensure_Inr_has_context:
  assumes "ensure_cuda_context drv tid w = (Inr (), wc)"
  shows "\<exists>ctx. thread_local wc tid = Some ctx"
  using assms
  by (auto simp add: ensure_cuda_context_def Let_def split: option.splits if_splits)

text \<open>
  A run with a comparison in which no driver call fails and the problem size is positive:
  the comparison run is a whole run of its own, with its own warmup and its own 100 timed
  iterations, between the copy of the output and the frees of the run that asked for it.
\<close>

lemma run_protocol_comparison:
  assumes ctx: "ensure_cuda_context (context_driver env d) tid w = (Inr (), wc)"
    and nested: "context_driver env (Suc d) = None"
    and args: "parse_kernel_args env args_str = Inr args"
    and n: "0 < arg_n args"
    and nofault: "\<forall>l. fault env d l = None"
    and nofault': "\<forall>l. fault env (Suc d) l = None"
    and cmp: "truthy compare_with"
  shows "trace (snd (run env tid d cubin_file args_str compare_with w)) =
           trace w
           @ map (Op d) [OpenFile, ModuleFromBuffer, GetFunction,
                         MemAlloc 0, MemAlloc 1, MemAlloc 2, MemcpyHtoD 0, MemcpyHtoD 1,
                         Launch 0, Synchronize 0]
           @ concat (map (\<lambda>i. [PerfCounter (ticks w + 2 * i), Op d (Launch (Suc i)),
                               Op d (Synchronize (Suc i)), PerfCounter (ticks w + 2 * i + 1)])
                      [0..<100])
           @ [Op d MemcpyDtoH]
           @ map (Op (Suc d)) [OpenFile, ModuleFromBuffer, GetFunction,
                         MemAlloc 0, MemAlloc 1, MemAlloc 2, MemcpyHtoD 0, MemcpyHtoD 1,
                         Launch 0, Synchronize 0]
           @ concat (map (\<lambda>i. [PerfCounter (ticks w + 200 + 2 * i), Op (Suc d) (Launch (Suc i)),
                               Op (Suc d) (Synchronize (Suc i)),
                               PerfCounter (ticks w + 200 + 2 * i + 1)])
                      [0..<100])
           @ map (Op (Suc d)) [MemcpyDtoH, Free 0, Free 1, Free 2]
           @ map (Op d) [Free 0, Free 1, Free 2]"
proof -
  have n0: "0 \<le> arg_n args" using n by simp
  have pre: "first_fault env d setup_labels = None"
    and body: "first_fault env d guarded_labels = None"
    and frees: "\<forall>i. fault env d (Free i) = None"
    using nofault by (simp_all add: first_fault_none)
  have dev: "trace wc = trace w" "ticks wc = ticks w"
    using ensure_keeps_device [of "context_driver env d" tid w] ctx by simp_all
  obtain c where has: "thread_local wc tid = Some c"
    using ensure_Inr_has_context [OF ctx] by blast
  define loc where "loc = \<lparr>size_n = arg_n args,
                 host_a = map (rand_a env d) [0..<nat (arg_n args)],
                 host_b = map (rand_b env d) [0..<nat (arg_n args)],
                 a_gpu = allocated wc, b_gpu = Suc (allocated wc),
                 c_gpu = Suc (Suc (allocated wc)),
                 results0 = initial_results cubin_file ''vector_add''\<rparr>"
  define w2 where "w2 = wc\<lparr>trace := trace wc @ map (Op d) setup_labels,
               live := live wc @ [allocated wc, Suc (allocated wc), Suc (Suc (allocated wc))],
               allocated := Suc (Suc (Suc (allocated wc)))\<rparr>"
  have prep: "prepare env tid d cubin_file args_str w = (Inr loc, w2)"
    using prepare_ok [OF ctx args n0 pre, of cubin_file] by (simp add: loc_def w2_def)
  define w3 where "w3 = w2\<lparr>ticks := ticks w2 + 200,
              trace := trace w2 @ [Op d (Launch 0), Op d (Synchronize 0)]
                         @ loop_events d (ticks w2) 0 100 @ [Op d MemcpyDtoH]\<rparr>"
  have ne: "loop_times env (ticks w2) 100 \<noteq> []" by (simp add: loop_times_closed)
  have "\<exists>r1. summarize (size_n loc) (host_a loc) (host_b loc)
      (map (device_out env d (host_a loc) (host_b loc)) [0..<nat (size_n loc)])
      (loop_times env (ticks w2) 100) (results0 loc) = Inr r1 \<and> success r1"
    by (rule summarize_ok [OF _ _ _ _ ne]) (simp_all add: loc_def n)
  then obtain r1 where m: "measure_kernel env d (size_n loc) (host_a loc) (host_b loc)
      (results0 loc) w2 = (Inr r1, w3)"
    using measure_kernel_ok [OF body] by (auto simp add: w3_def)
  have ctx': "ensure_cuda_context (context_driver env (Suc d)) tid w3 = (Inr (), w3)"
    using has by (simp add: nested ensure_cuda_context_def w3_def w2_def)
  have single: "\<not> truthy None" by (simp add: truthy_def)
  note inner = run_fault_free [OF ctx' args n0 nofault' single, of "the compare_with"]
  have t3: "ticks w3 = ticks w + 200" "trace w3 = trace w @ map (Op d) setup_labels
      @ [Op d (Launch 0), Op d (Synchronize 0)] @ loop_events d (ticks w) 0 100
      @ [Op d MemcpyDtoH]"
    by (simp_all add: w3_def w2_def dev)
  have "trace (snd (run env tid d cubin_file args_str compare_with w)) =
      trace w3 @ map (Op (Suc d)) setup_labels
        @ [Op (Suc d) (Launch 0), Op (Suc d) (Synchronize 0)]
        @ loop_events (Suc d) (ticks w3) 0 100
        @ [Op (Suc d) MemcpyDtoH, Op (Suc d) (Free 0), Op (Suc d) (Free 1), Op (Suc d) (Free 2)]
        @ [Op d (Free 0), Op d (Free 1), Op d (Free 2)]"
    unfolding run_unfold [OF prep]
    using cmp
    by (simp add: try_finally_def try_except_def m bind_def inner lift_def ret_def
        release_ok [OF frees] split: sum.splits)
  then show ?thesis
    by (simp add: t3 loop_events_closed setup_labels_def add.assoc)
qed

text \<open>
  A run with a comparison reaches the comparison run when nothing fails before it and the
  problem size is positive; the comparison run raises when its module cannot be loaded.
\<close>

lemma comparison_load_fault_reached:
  assumes ctx: "ensure_cuda_context (context_driver env d) tid w = (Inr (), wc)"
    and args: "parse_kernel_args env args_str = Inr args"
    and n: "0 < arg_n args"
    and pre: "first_fault env d setup_labels = None"
    and body: "first_fault env d guarded_labels = None"
    and nested: "context_driver env (Suc d) = None"
    and opened: "fault env (Suc d) OpenFile = None"
    and load: "fault env (Suc d) ModuleFromBuffer = Some e"
  shows "\<exists>loc wp summary wm wn.
           prepare env tid d cubin_file args_str w = (Inr loc, wp)
           \<and> measure_kernel env d (size_n loc) (host_a loc) (host_b loc) (results0 loc) wp
                 = (Inr summary, wm)
           \<and> success summary \<and> timing summary \<noteq> None
           \<and> run env tid (Suc d) baseline args_str None wm = (Inl e, wn)"
proof -
  have n0: "0 \<le> arg_n args" using n by simp
  obtain c where has: "thread_local wc tid = Some c"
    using ensure_Inr_has_context [OF ctx] by blast
  define loc where "loc = \<lparr>size_n = arg_n args,
                 host_a = map (rand_a env d) [0..<nat (arg_n args)],
                 host_b = map (rand_b env d) [0..<nat (arg_n args)],
                 a_gpu = allocated wc, b_gpu = Suc (allocated wc),
                 c_gpu = Suc (Suc (allocated wc)),
                 results0 = initial_results cubin_file ''vector_add''\<rparr>"
  define wp where "wp = wc\<lparr>trace := trace wc @ map (Op d) setup_labels,
               live := live wc @ [allocated wc, Suc (allocated wc), Suc (Suc (allocated wc))],
               allocated := Suc (Suc (Suc (allocated wc)))\<rparr>"
  have prep: "prepare env tid d cubin_file args_str w = (Inr loc, wp)"
    using prepare_ok [OF ctx args n0 pre, of cubin_file] by (simp add: loc_def wp_def)
  define wm where "wm = wp\<lparr>ticks := ticks wp + 200,
              trace := trace wp @ [Op d (Launch 0), Op d (Synchronize 0)]
                         @ loop_events d (ticks wp) 0 100 @ [Op d MemcpyDtoH]\<rparr>"
  have ne: "loop_times env (ticks wp) 100 \<noteq> []" by (simp add: loop_times_closed)
  have "\<exists>r. summarize (size_n loc) (host_a loc) (host_b loc)
      (map (device_out env d (host_a loc) (host_b loc)) [0..<nat (size_n loc)])
      (loop_times env (ticks wp) 100) (results0 loc) = Inr r \<and> success r"
    by (rule summarize_ok [OF _ _ _ _ ne]) (simp_all add: loc_def n)
  then obtain summary where s: "summarize (size_n loc) (host_a loc) (host_b loc)
      (map (device_out env d (host_a loc) (host_b loc)) [0..<nat (size_n loc)])
      (loop_times env (ticks wp) 100) (results0 loc) = Inr summary"
    and succ: "success summary"
    by blast
  have m: "measure_kernel env d (size_n loc) (host_a loc) (host_b loc) (results0 loc) wp
             = (Inr summary, wm)"
    using measure_kernel_ok [OF body] s by (simp add: wm_def)
  have tm: "timing summary \<noteq> None"
    using s by (auto simp add: summarize_def Let_def split: sum.splits)
  have ctx': "ensure_cuda_context (context_driver env (Suc d)) tid wm = (Inr (), wm)"
    using has by (simp add: nested ensure_cuda_context_def wm_def wp_def)
  have "prepare env tid (Suc d) baseline args_str wm =
      (Inl e, wm\<lparr>trace := trace wm @ [Op (Suc d) OpenFile]\<rparr>)"
    by (rule prepare_load_fault [OF ctx' args opened load])
  then have "run env tid (Suc d) baseline args_str None wm =
      (Inl e, wm\<lparr>trace := trace wm @ [Op (Suc d) OpenFile]\<rparr>)"
    by (rule run_prepare_raises)
  then show ?thesis
    using prep m succ tm by blast
qed

text \<open>
  Once the \<open>try\<close> block of \<open>run\<close> is reached and the three frees succeed, \<open>run\<close> returns
  normally.
\<close>

lemma run_returns_normally:
  assumes ctx: "ensure_cuda_context (context_driver env d) tid w = (Inr (), wc)"
    and args: "parse_kernel_args env args_str = Inr args"
    and n: "0 \<le> arg_n args"
    and pre: "first_fault env d setup_labels = None"
    and frees: "\<forall>i. fault env d (Free i) = None"
  shows "\<exists>r w'. run env tid d cubin_file args_str compare_with w = (Inr r, w')"
proof -
  obtain l w2 where prep: "prepare env tid d cubin_file args_str w = (Inr l, w2)"
    using prepare_ok [OF ctx args n pre, of cubin_file] by blast
  show ?thesis
    unfolding run_unfold [OF prep, of compare_with]
    by (auto simp add: try_finally_def try_except_def ret_def release_ok [OF frees]
        split: prod.splits sum.splits)
qed

text \<open>
  The first failing driver call of the \<open>try\<close> block ends the measurements; the handler
  returns the initial dictionary with the failure recorded.
\<close>

lemma run_records_device_fault:
  assumes ctx: "ensure_cuda_context (context_driver env d) tid w = (Inr (), wc)"
    and args: "parse_kernel_args env args_str = Inr args"
    and n: "0 \<le> arg_n args"
    and pre: "first_fault env d setup_labels = None"
    and frees: "\<forall>i. fault env d (Free i) = None"
    and body: "first_fault env d guarded_labels = Some e"
  shows "\<exists>w'. run env tid d cubin_file args_str compare_with w =
                 (Inr ((initial_results cubin_file ''vector_add'')
                         \<lparr>success := False, error := Some (exn_str e)\<rparr>), w')"
proof -
  define l where "l = \<lparr>size_n = arg_n args,
                 host_a = map (rand_a env d) [0..<nat (arg_n args)],
                 host_b = map (rand_b env d) [0..<nat (arg_n args)],
                 a_gpu = allocated wc, b_gpu = Suc (allocated wc),
                 c_gpu = Suc (Suc (allocated wc)),
                 results0 = initial_results cubin_file ''vector_add''\<rparr>"
  obtain w2 where prep: "prepare env tid d cubin_file args_str w = (Inr l, w2)"
    using prepare_ok [OF ctx args n pre, of cubin_file] by (simp add: l_def)
  obtain w3 where m: "measure_kernel env d (size_n l) (host_a l) (host_b l)
      (results0 l) w2 = (Inl e, w3)"
    using measure_kernel_fault [OF body] by blast
  have r0: "results0 l = initial_results cubin_file ''vector_add''"
    by (simp add: l_def)
  show ?thesis
    unfolding run_unfold [OF prep, of compare_with]
    by (simp add: try_finally_def try_except_def m [unfolded r0] release_ok [OF frees]
        on_exception_def r0)
qed

text \<open>
  With a problem of size zero every driver call of the \<open>try\<close> block succeeds and \<open>np.max\<close>
  raises on the empty array of deviations; the handler records that failure.
\<close>

lemma run_records_empty_reduction:
  assumes ctx: "ensure_cuda_context (context_driver env d) tid w = (Inr (), wc)"
    and args: "parse_kernel_args env args_str = Inr args"
    and zero: "arg_n args = 0"
    and pre: "first_fault env d setup_labels = None"
    and frees: "\<forall>i. fault env d (Free i) = None"
    and body: "first_fault env d guarded_labels = None"
  shows "\<exists>w'. run env tid d cubin_file args_str compare_with w =
                 (Inr ((initial_results cubin_file ''vector_add'')
                         \<lparr>success := False,
                          error := Some ''zero-size array to reduction operation maximum which has no identity''\<rparr>),
                  w')"
proof -
  have n: "0 \<le> arg_n args" using zero by simp
  define l where "l = \<lparr>size_n = arg_n args,
                 host_a = map (rand_a env d) [0..<nat (arg_n args)],
                 host_b = map (rand_b env d) [0..<nat (arg_n args)],
                 a_gpu = allocated wc, b_gpu = Suc (allocated wc),
                 c_gpu = Suc (Suc (allocated wc)),
                 results0 = initial_results cubin_file ''vector_add''\<rparr>"
  obtain w2 where prep: "prepare env tid d cubin_file args_str w = (Inr l, w2)"
    using prepare_ok [OF ctx args n pre, of cubin_file] by (simp add: l_def)
  have s: "summarize (size_n l) (host_a l) (host_b l)
      (map (device_out env d (host_a l) (host_b l)) [0..<nat (size_n l)])
      (loop_times env (ticks w2) 100) (results0 l) =
      Inl (Exn ValueError
             ''zero-size array to reduction operation maximum which has no identity'')"
    by (simp add: l_def zero summarize_def np_max_def)
  obtain w3 where m: "measure_kernel env d (size_n l) (host_a l) (host_b l)
      (results0 l) w2 =
      (Inl (Exn ValueError
             ''zero-size array to reduction operation maximum which has no identity''), w3)"
    using measure_kernel_ok [OF body, of "size_n l" "host_a l" "host_b l" "results0 l" w2] s
    by simp
  have r0: "results0 l = initial_results cubin_file ''vector_add''"
    by (simp add: l_def)
  show ?thesis
    unfolding run_unfold [OF prep, of compare_with]
    by (simp add: try_finally_def try_except_def m [unfolded r0] release_ok [OF frees]
        on_exception_def r0)
qed

text \<open>
  When the measurements succeed and the comparison raises (the comparison run or
  \<open>_compare_results\<close>), the handler of the \<open>try\<close> block records that failure in the dictionary
  of the measurements.
\<close>

lemma run_records_comparison_fault:
  assumes prep: "prepare env tid d cubin_file args_str w = (Inr loc, wp)"
    and m: "measure_kernel env d (size_n loc) (host_a loc) (host_b loc) (results0 loc) wp
              = (Inr summary, wm)"
    and cmp: "truthy compare_with"
    and inner: "bind (run env tid (Suc d) (the compare_with) args_str None)
                  (\<lambda>compare_results'. lift (compare_results summary compare_results')) wm
                = (Inl ec, wn)"
    and frees: "\<forall>i. fault env d (Free i) = None"
  shows "\<exists>w'. run env tid d cubin_file args_str compare_with w =
                 (Inr (summary\<lparr>success := False, error := Some (exn_str ec)\<rparr>), w')"
  unfolding run_unfold [OF prep]
  by (simp add: try_finally_def try_except_def m cmp inner release_ok [OF frees]
      on_exception_def)

lemma run_reraises_load_fault:
  assumes ctx: "ensure_cuda_context (context_driver env d) tid w = (Inr (), wc)"
    and args: "parse_kernel_args env args_str = Inr args"
    and opened: "fault env d OpenFile = None"
    and load: "fault env d ModuleFromBuffer = Some e"
  shows "fst (run env tid d cubin_file args_str compare_with w) = Inl e"
  using run_prepare_raises [OF prepare_load_fault [OF ctx args opened load]] by simp

text \<open>
  C4, amended. When the \<open>try\<close> block of \<open>run\<close> is reached (the context, the arguments, the
  module, the kernel, the allocations and the copies to the device have succeeded) and the
  three frees succeed, \<open>run\<close> returns normally, whatever fails inside the block. When the
  first failing driver call of the block (a launch, a synchronization or the copy of the
  output) raises \<open>e\<close>, and when the computation of the result raises (\<open>np.max\<close> on the empty
  array of a problem of size zero), the returned dictionary is the initial one with
  \<open>success = False\<close> and \<open>error = str(e)\<close>. When the comparison (the comparison run
  or \<open>_compare_results\<close>) raises \<open>e\<close>, the returned dictionary is the one of the
  measurements with \<open>success = False\<close> and \<open>error = str(e)\<close>. A
  failure while the module is built from the file is raised again by \<open>_load_cubin\<close> and
  leaves \<open>run\<close> as an exception.
\<close>

theorem run_captures_guarded_failures:
  "(ensure_cuda_context (context_driver env d) tid w = (Inr (), wc)
    \<and> parse_kernel_args env args_str = Inr args \<and> 0 \<le> arg_n args
    \<and> first_fault env d setup_labels = None \<and> (\<forall>i. fault env d (Free i) = None)
    \<longrightarrow> (\<exists>r w'. run env tid d cubin_file args_str compare_with w = (Inr r, w'))
      \<and> (\<forall>e. first_fault env d guarded_labels = Some e \<longrightarrow>
             (\<exists>w'. run env tid d cubin_file args_str compare_with w =
                      (Inr ((initial_results cubin_file ''vector_add'')
                              \<lparr>success := False, error := Some (exn_str e)\<rparr>), w')))
      \<and> (first_fault env d guarded_labels = None \<and> arg_n args = 0 \<longrightarrow>
             (\<exists>w'. run env tid d cubin_file args_str compare_with w =
                      (Inr ((initial_results cubin_file ''vector_add'')
                              \<lparr>success := False,
                               error := Some ''zero-size array to reduction operation maximum which has no identity''\<rparr>),
                       w'))))
   \<and> (prepare env tid d cubin_file args_str w = (Inr loc, wp)
      \<and> measure_kernel env d (size_n loc) (host_a loc) (host_b loc) (results0 loc) wp
            = (Inr summary, wm)
      \<and> truthy compare_with
      \<and> bind (run env tid (Suc d) (the compare_with) args_str None)
            (\<lambda>compare_results'. lift (compare_results summary compare_results')) wm
          = (Inl ec, wn)
      \<and> (\<forall>i. fault env d (Free i) = None)
      \<longrightarrow> (\<exists>w'. run env tid d cubin_file args_str compare_with w =
                   (Inr (summary\<lparr>success := False, error := Some (exn_str ec)\<rparr>), w')))
   \<and> (ensure_cuda_context (context_driver env d) tid w = (Inr (), wc)
      \<and> parse_kernel_args env args_str = Inr args
      \<and> fault env d OpenFile = None \<and> fault env d ModuleFromBuffer = Some e'
      \<longrightarrow> fst (run env tid d cubin_file args_str compare_with w) = Inl e')"
  using run_returns_normally [of env d tid w wc args_str args cubin_file compare_with]
    run_records_device_fault [of env d tid w wc args_str args _ cubin_file compare_with]
    run_records_empty_reduction [of env d tid w wc args_str args cubin_file compare_with]
    run_records_comparison_fault [of env tid d cubin_file args_str w loc wp summary wm
      compare_with ec wn]
    run_reraises_load_fault [of env d tid w wc args_str args e' cubin_file compare_with]
  by blast

theorem run_captures_guarded_failures_witness:
  "(\<exists>w'. run launch_fault_env 7 0 ''k.cubin'' (Some demo_args) None
               (init_runner initial_world) =
             (Inr ((initial_results ''k.cubin'' ''vector_add'')
                     \<lparr>success := False,
                      error := Some ''cuLaunchKernel failed: launch failed''\<rparr>), w'))
   \<and> (\<exists>w'. run zero_size_env 7 0 ''k.cubin'' (Some demo_args) None
               (init_runner initial_world) =
             (Inr ((initial_results ''k.cubin'' ''vector_add'')
                     \<lparr>success := False,
                      error := Some ''zero-size array to reduction operation maximum which has no identity''\<rparr>),
              w'))
   \<and> (\<exists>r w'. run baseline_fault_env 7 0 ''k.cubin'' (Some demo_args) (Some ''old.cubin'')
                 (init_runner initial_world) = (Inr r, w')
               \<and> \<not> success r
               \<and> error r = Some ''cuModuleLoadDataEx failed: invalid image''
               \<and> timing r \<noteq> None)
   \<and> fst (run load_fault_env 7 0 ''k.cubin'' (Some demo_args) None
            (init_runner initial_world)) =
       Inl (Exn CudaError ''cuModuleLoadDataEx failed: invalid image'')"
proof -
  define w where "w = init_runner initial_world"
  define wc where "wc = snd (ensure_cuda_context None 7 w)"
  have ctx: "\<And>env. context_driver env 0 = None \<Longrightarrow>
      ensure_cuda_context (context_driver env 0) 7 w = (Inr (), wc)"
    by (simp add: wc_def w_def ensure_cuda_context_def init_runner_def initial_world_def Let_def)
  have launch: "\<exists>w'. run launch_fault_env 7 0 ''k.cubin'' (Some demo_args) None w =
             (Inr ((initial_results ''k.cubin'' ''vector_add'')
                     \<lparr>success := False,
                      error := Some ''cuLaunchKernel failed: launch failed''\<rparr>), w')"
  proof -
    have ff: "first_fault launch_fault_env 0 guarded_labels =
        Some (Exn CudaError ''cuLaunchKernel failed: launch failed'')"
      by (simp add: guarded_labels_def launch_fault_env_def demo_env_def eval_nat_numeral)
    have su: "first_fault launch_fault_env 0 setup_labels = None"
      by (simp add: setup_labels_def launch_fault_env_def demo_env_def)
    show ?thesis
      using run_captures_guarded_failures [where env = launch_fault_env and d = 0 and tid = 7
          and w = w and args_str = "Some demo_args"
          and args = "[''n'' \<mapsto> 3]" and cubin_file = "''k.cubin''" and compare_with = None
          and wc = wc]
        ff su ctx [of launch_fault_env]
      by (simp add: parse_kernel_args_def demo_args_def arg_n_def launch_fault_env_def
          demo_env_def)
  qed
  have empty: "\<exists>w'. run zero_size_env 7 0 ''k.cubin'' (Some demo_args) None w =
             (Inr ((initial_results ''k.cubin'' ''vector_add'')
                     \<lparr>success := False,
                      error := Some ''zero-size array to reduction operation maximum which has no identity''\<rparr>),
              w')"
  proof -
    have g: "first_fault zero_size_env 0 guarded_labels = None"
      by (rule first_fault_none) (simp add: zero_size_env_def demo_env_def)
    have su: "first_fault zero_size_env 0 setup_labels = None"
      by (rule first_fault_none) (simp add: zero_size_env_def demo_env_def)
    show ?thesis
      using run_captures_guarded_failures [where env = zero_size_env and d = 0 and tid = 7
          and w = w and args_str = "Some demo_args"
          and args = "[''n'' \<mapsto> 0]" and cubin_file = "''k.cubin''" and compare_with = None
          and wc = wc]
        g su ctx [of zero_size_env]
      by (simp add: parse_kernel_args_def demo_args_def arg_n_def zero_size_env_def
          demo_env_def)
  qed
  have baseline: "\<exists>r w'. run baseline_fault_env 7 0 ''k.cubin'' (Some demo_args)
                 (Some ''old.cubin'') w = (Inr r, w')
               \<and> \<not> success r
               \<and> error r = Some ''cuModuleLoadDataEx failed: invalid image''
               \<and> timing r \<noteq> None"
  proof -
    have c: "ensure_cuda_context (context_driver baseline_fault_env 0) 7 w = (Inr (), wc)"
      by (rule ctx) (simp add: baseline_fault_env_def demo_env_def)
    have a: "parse_kernel_args baseline_fault_env (Some demo_args) = Inr [''n'' \<mapsto> 3]"
      by (simp add: parse_kernel_args_def demo_args_def baseline_fault_env_def demo_env_def)
    have n: "0 < arg_n [''n'' \<mapsto> 3]" by (simp add: arg_n_def)
    have su: "first_fault baseline_fault_env 0 setup_labels = None"
      by (rule first_fault_none) (simp add: baseline_fault_env_def demo_env_def)
    have g: "first_fault baseline_fault_env 0 guarded_labels = None"
      by (rule first_fault_none) (simp add: baseline_fault_env_def demo_env_def)
    have nested: "context_driver baseline_fault_env (Suc 0) = None"
      by (simp add: baseline_fault_env_def demo_env_def)
    have opened: "fault baseline_fault_env (Suc 0) OpenFile = None"
      by (simp add: baseline_fault_env_def demo_env_def)
    have load: "fault baseline_fault_env (Suc 0) ModuleFromBuffer =
        Some (Exn CudaError ''cuModuleLoadDataEx failed: invalid image'')"
      by (simp add: baseline_fault_env_def demo_env_def)
    have frees: "\<forall>i. fault baseline_fault_env 0 (Free i) = None"
      by (simp add: baseline_fault_env_def demo_env_def)
    have cmp: "truthy (Some ''old.cubin'')" by (simp add: truthy_def)
    obtain loc wp summary wm wn where
      prep: "prepare baseline_fault_env 7 0 ''k.cubin'' (Some demo_args) w = (Inr loc, wp)"
      and m: "measure_kernel baseline_fault_env 0 (size_n loc) (host_a loc) (host_b loc)
                (results0 loc) wp = (Inr summary, wm)"
      and tm: "timing summary \<noteq> None"
      and inner: "run baseline_fault_env 7 (Suc 0) ''old.cubin'' (Some demo_args) None wm =
                (Inl (Exn CudaError ''cuModuleLoadDataEx failed: invalid image''), wn)"
      using comparison_load_fault_reached [OF c a n su g nested opened load,
          of "''k.cubin''" "''old.cubin''"]
      by blast
    have raised: "bind (run baseline_fault_env 7 (Suc 0) (the (Some ''old.cubin''))
                     (Some demo_args) None)
               (\<lambda>compare_results'. lift (compare_results summary compare_results')) wm =
             (Inl (Exn CudaError ''cuModuleLoadDataEx failed: invalid image''), wn)"
      by (simp add: bind_def inner)
    have "\<exists>w'. run baseline_fault_env 7 0 ''k.cubin'' (Some demo_args) (Some ''old.cubin'') w =
             (Inr (summary\<lparr>success := False,
                           error := Some ''cuModuleLoadDataEx failed: invalid image''\<rparr>), w')"
      using run_captures_guarded_failures [where env = baseline_fault_env and d = 0
          and tid = 7 and w = w and args_str = "Some demo_args"
          and cubin_file = "''k.cubin''" and compare_with = "Some ''old.cubin''"
          and loc = loc and wp = wp and summary = summary and wm = wm and wn = wn
          and ec = "Exn CudaError ''cuModuleLoadDataEx failed: invalid image''"
          and wc = wc and args = "[''n'' \<mapsto> 3]"
          and e' = "Exn CudaError ''cuModuleLoadDataEx failed: invalid image''"]
        prep m raised cmp frees
      by simp
    then obtain w' where r:
      "run baseline_fault_env 7 0 ''k.cubin'' (Some demo_args) (Some ''old.cubin'') w =
             (Inr (summary\<lparr>success := False,
                           error := Some ''cuModuleLoadDataEx failed: invalid image''\<rparr>), w')"
      by blast
    show ?thesis
      using tm by (simp add: r)
  qed
  have reraised: "fst (run load_fault_env 7 0 ''k.cubin'' (Some demo_args) None w) =
       Inl (Exn CudaError ''cuModuleLoadDataEx failed: invalid image'')"
    using run_captures_guarded_failures [where env = load_fault_env and d = 0 and tid = 7
        and w = w and args_str = "Some demo_args"
        and args = "[''n'' \<mapsto> 3]" and cubin_file = "''k.cubin''" and compare_with = None
        and wc = wc and e' = "Exn CudaError ''cuModuleLoadDataEx failed: invalid image''"]
      ctx [of load_fault_env]
    by (simp add: parse_kernel_args_def demo_args_def load_fault_env_def demo_env_def)
  show ?thesis
    using launch empty baseline reraised unfolding w_def by blast
qed

end
